theory Spec2Isabelle
  imports Main "HOL-Library.Multiset" "HOL-Library.Sublist"
begin

section \<open>Data model\<close>

text \<open>
  The dashboard works on one pandas DataFrame read from a CSV file. A cell is either
  missing (NaN / None) or a piece of text. Text is a \<^typ>\<open>string\<close> holding the UTF-8 bytes
  of the Python \<open>str\<close>, so that two Python strings are equal exactly when their models are.
  A column is the list of its cells, row by row, and a table is the list of its named
  columns in the order of \<open>df.columns\<close>.
\<close>

datatype cell = Null | Str string

type_synonym column = "cell list"

type_synonym table = "(string \<times> column) list"

text \<open>The exceptions the program can meet: a missing column, an empty series read at
  position 0, and whatever the CSV reader raises.\<close>

datatype exn = KeyError string | IndexError | ReadError string

section \<open>The income brackets\<close>

text \<open>\<open>create_salary_order\<close>: the seven bracket labels in ascending order.\<close>

definition create_salary_order :: "string list" where
  "create_salary_order =
     [''0 - 2.500.000'', ''2.500.001 - 5.000.000'', ''5.000.001 - 7.500.000'',
      ''7.500.001 - 10.000.000'', ''10.000.001 - 20.000.000'', ''20.000.001 - 50.000.000'',
      ''50.000.001 - 100.000.000'']"

text \<open>\<open>get_max_income\<close>, the \<open>if\<close>/\<open>elif\<close> chain of the source in its order. The argument
  is a cell of the table; a missing cell is equal to no string and falls to the last branch.\<close>

definition get_max_income :: "cell \<Rightarrow> int" where
  "get_max_income income_range =
     (if income_range = Str ''0 - 2.500.000'' then 2500000
      else if income_range = Str ''2.500.001 - 5.000.000'' then 5000000
      else if income_range = Str ''5.000.001 - 7.500.000'' then 7500000
      else if income_range = Str ''7.500.001 - 10.000.000'' then 10000000
      else if income_range = Str ''10.000.001 - 20.000.000'' then 20000000
      else if income_range = Str ''20.000.001 - 50.000.000'' then 50000000
      else if income_range = Str ''50.000.001 - 100.000.000'' then 100000000
      else 0)"

text \<open>The first of the five category labels starts with the character U+2264
  (less-than-or-equal), which is the three bytes E2 89 A4 in UTF-8.\<close>

abbreviation le_5_juta :: string where
  "le_5_juta \<equiv> CHR 0xE2 # CHR 0x89 # CHR 0xA4 # '' 5 Juta''"

text \<open>The branch on the local variable \<open>total\<close> (here \<open>tot\<close>) that ends
  \<open>get_income_category\<close> (the five-way
  \<open>if\<close>/\<open>elif\<close> chain), named so that it can be stated for any total.\<close>

definition category_of_total :: "int \<Rightarrow> string" where
  "category_of_total tot =
     (if tot \<le> 5000000 then le_5_juta
      else if tot \<le> 10000000 then ''5-10 Juta''
      else if tot \<le> 20000000 then ''10-20 Juta''
      else if tot \<le> 50000000 then ''20-50 Juta''
      else ''> 50 Juta'')"

definition get_income_category :: "cell \<Rightarrow> cell \<Rightarrow> string" where
  "get_income_category father_income mother_income =
     (let father_max = get_max_income father_income;
          mother_max = get_max_income mother_income;
          tot = father_max + mother_max
      in category_of_total tot)"

section \<open>Tables\<close>

text \<open>\<open>df[col]\<close> where the result is used as a series (\<open>value_counts\<close>, \<open>nunique\<close>,
  \<open>dropna\<close>, a comparison): the column that carries the label, the first one should a
  label be repeated. A label that no column carries raises \<open>KeyError\<close>.\<close>

definition getcol :: "table \<Rightarrow> string \<Rightarrow> exn + column" where
  "getcol df col = (case map_of df col of None \<Rightarrow> Inl (KeyError col) | Some xs \<Rightarrow> Inr xs)"

text \<open>\<open>df[col] = v\<close> with a series \<open>v\<close>: every column that carries the label is
  replaced where it stands; when no column carries it, a new column is appended after
  the last one.\<close>

definition setcol :: "string \<Rightarrow> column \<Rightarrow> table \<Rightarrow> table" where
  "setcol col v df =
     (if col \<in> set (map fst df)
      then map (\<lambda>(name, xs). if name = col then (name, v) else (name, xs)) df
      else df @ [(col, v)])"

text \<open>\<open>df[col]\<close> in general: all the columns that carry the label, in the order of the
  table. This is one series when the label occurs once and a frame of several columns
  when it is repeated; \<open>KeyError\<close> when no column carries it.\<close>

definition getcols :: "table \<Rightarrow> string \<Rightarrow> exn + column list" where
  "getcols df col =
     (if col \<in> set (map fst df)
      then Inr (map snd (filter (\<lambda>(name, xs). name = col) df))
      else Inl (KeyError col))"

text \<open>\<open>df[col] = frame\<close>, where the frame has one column for each column of the table
  that carries the label (it is \<open>df[col]\<close> itself after a cell-wise operation): the
  columns of the frame are written, in order, over the columns that carry the label.\<close>

fun setcols :: "string \<Rightarrow> column list \<Rightarrow> table \<Rightarrow> table" where
  "setcols col vs [] = []"
| "setcols col vs ((name, xs) # df) =
     (if name = col
      then (case vs of
              [] \<Rightarrow> (name, xs) # df
            | v # rest \<Rightarrow> (name, v) # setcols col rest df)
      else (name, xs) # setcols col vs df)"

text \<open>\<open>len(df)\<close>: the number of rows.\<close>

definition len_df :: "table \<Rightarrow> nat" where
  "len_df df = (case df of [] \<Rightarrow> 0 | (name, xs) # rest \<Rightarrow> length xs)"

text \<open>\<open>Series.replace(to_replace, value)\<close> with two scalars: whole cells equal to
  \<open>to_replace\<close> become \<open>value\<close>.\<close>

definition replace_value :: "cell \<Rightarrow> cell \<Rightarrow> column \<Rightarrow> column" where
  "replace_value to_replace val xs = map (\<lambda>x. if x = to_replace then val else x) xs"

text \<open>\<open>DataFrame.fillna(value)\<close>: every missing cell of every column becomes \<open>value\<close>.\<close>

definition fillna :: "cell \<Rightarrow> table \<Rightarrow> table" where
  "fillna val df = map (\<lambda>(name, xs). (name, map (\<lambda>x. if x = Null then val else x) xs)) df"

section \<open>Cleaning\<close>

text \<open>The local list \<open>salary_columns\<close> of \<open>clean_data\<close>.\<close>

definition salary_columns :: "string list" where
  "salary_columns = [''ayah_penghasilan'', ''ibu_penghasilan'']"

text \<open>The sentinel: the Python literal \<open>'\\N'\<close> is the two characters backslash and N.\<close>

abbreviation backslash_N :: string where
  "backslash_N \<equiv> [CHR 0x5C, CHR ''N'']"

text \<open>The \<open>for col in salary_columns\<close> loop of \<open>clean_data\<close>. Its body
  \<open>df[col] = df[col].replace('\\N', '0 - 2.500.000')\<close> selects whatever carries the
  label, replaces cell by cell, and writes the result back under the same label.\<close>

fun replace_loop :: "string list \<Rightarrow> table \<Rightarrow> exn + table" where
  "replace_loop [] df = Inr df"
| "replace_loop (col # cols) df =
     (case getcols df col of
        Inl e \<Rightarrow> Inl e
      | Inr frame \<Rightarrow>
          replace_loop cols
            (setcols col
               (map (replace_value (Str backslash_N) (Str ''0 - 2.500.000'')) frame) df))"

text \<open>\<open>clean_data\<close>: the loop, then \<open>df.fillna('Tidak Diketahui')\<close>.\<close>

definition clean_data :: "table \<Rightarrow> exn + table" where
  "clean_data df =
     (case replace_loop salary_columns df of
        Inl e \<Rightarrow> Inl e
      | Inr df1 \<Rightarrow> Inr (fillna (Str ''Tidak Diketahui'') df1))"

text \<open>What the specification says of one cell of the column \<open>name\<close>: a missing cell gets
  the placeholder, the sentinel in one of the two income columns gets the lowest bracket,
  and every other cell stays.\<close>

definition cleaned_cell :: "string \<Rightarrow> cell \<Rightarrow> cell" where
  "cleaned_cell name x =
     (if x = Null then Str ''Tidak Diketahui''
      else if name \<in> set salary_columns \<and> x = Str backslash_N then Str ''0 - 2.500.000''
      else x)"

section \<open>Value counts\<close>

text \<open>\<open>Series.dropna()\<close>: the cells that are not missing, in their order.\<close>

definition dropna :: "column \<Rightarrow> column" where
  "dropna xs = filter (\<lambda>x. x \<noteq> Null) xs"

text \<open>The different values of a list, each once, in the order of their first
  occurrence.\<close>

fun uniques :: "'a list \<Rightarrow> 'a list" where
  "uniques [] = []"
| "uniques (x # xs) = x # filter (\<lambda>y. y \<noteq> x) (uniques xs)"

text \<open>\<open>Series.value_counts()\<close>: every value that is not missing, once, with the number
  of its occurrences, in descending order of that number. Values that occur equally often
  stay in the order of their first occurrence (the sort is stable); the properties proved
  below do not depend on the order among such values.\<close>

definition value_counts :: "column \<Rightarrow> (cell \<times> nat) list" where
  "value_counts xs =
     (let ys = dropna xs
      in sort_key (\<lambda>(v, c). - int c) (map (\<lambda>v. (v, count_list ys v)) (uniques ys)))"

text \<open>\<open>counts.reindex(labels)\<close>: one entry for each label in the order of the list, with
  the count of the label, or no value when the label is not in the index.\<close>

definition reindex :: "(cell \<times> nat) list \<Rightarrow> cell list \<Rightarrow> (cell \<times> nat option) list" where
  "reindex counts labels = map (\<lambda>l. (l, map_of counts l)) labels"

text \<open>The reordering used for both parents in \<open>income_analysis\<close>:
  \<open>income.reindex([x for x in salary_order if x in income.index])\<close>.\<close>

definition reorder_by_salary :: "(cell \<times> nat) list \<Rightarrow> (cell \<times> nat option) list" where
  "reorder_by_salary income =
     (let salary_order = map Str create_salary_order
      in reindex income (filter (\<lambda>x. x \<in> set (map fst income)) salary_order))"


section \<open>The page\<close>

text \<open>The eight report sections, in the order in which \<open>main\<close> runs them.\<close>

datatype report_section =
    Summary | Demographic | Geographic | Preferences
  | ParentEducation | ParentOccupation | Income | SchoolOrigin

text \<open>What the program puts on the page, one constructor for each kind of call to the UI
  framework that matters here, with the data handed to it. A chart is its title and the
  series it plots; the chart of the parents' education takes a frame, of which the rows
  are kept without their order. Layout calls (columns, figure layout) are left out, and
  the charting and display calls are taken not to raise.\<close>

datatype ui =
    Title
  | Rule
  | SidebarHeader
  | FileUploader
  | UploadPrompt
  | ExpectedFormat "string list"
  | LoadError exn
  | ProcessError exn
  | FormatHint
  | SidebarSuccess nat
  | SidebarSubheader
  | Checkbox string bool
  | Header report_section
  | Subheader string
  | Metric string nat
  | Findings
  | Pie string "(cell \<times> nat) list"
  | Bar string "(cell \<times> nat) list"
  | BarReindexed string "(cell \<times> nat option) list"
  | BarGrouped string "(cell \<times> nat \<times> nat) set"
  | Insight "(cell \<times> nat) list" "nat list"
  | DataPreview table
  | Download string table

text \<open>A piece of the program that writes to the page and may raise: the elements put on
  the page so far, in order, and either the exception that ended it or its result.
  \<open>draw\<close> puts one element on the page, \<open>eval_r\<close> evaluates an expression that may
  raise, \<open>bind_r\<close> and \<open>then_r\<close> run one piece after the other, the second only when
  the first has not raised.\<close>

type_synonym 'a render = "ui list \<times> (exn + 'a)"

definition draw :: "ui \<Rightarrow> unit render" where
  "draw u = ([u], Inr ())"

definition eval_r :: "exn + 'a \<Rightarrow> 'a render" where
  "eval_r r = ([], r)"

definition bind_r :: "'a render \<Rightarrow> ('a \<Rightarrow> 'b render) \<Rightarrow> 'b render" where
  "bind_r m f =
     (case m of
        (out, Inl e) \<Rightarrow> (out, Inl e)
      | (out, Inr x) \<Rightarrow> (case f x of (out', r) \<Rightarrow> (out @ out', r)))"

definition then_r :: "'a render \<Rightarrow> 'b render \<Rightarrow> 'b render" where
  "then_r m n = bind_r m (\<lambda>x. n)"

text \<open>\<open>df[col].value_counts()\<close>.\<close>

definition counts_of :: "table \<Rightarrow> string \<Rightarrow> exn + (cell \<times> nat) list" where
  "counts_of df col = (case getcol df col of Inl e \<Rightarrow> Inl e | Inr xs \<Rightarrow> Inr (value_counts xs))"

text \<open>\<open>counts.index[0]\<close> together with \<open>counts.iloc[0]\<close>: the first entry, or
  \<open>IndexError\<close> on an empty series.\<close>

definition index0 :: "'a list \<Rightarrow> exn + 'a" where
  "index0 xs = (case xs of [] \<Rightarrow> Inl IndexError | x # rest \<Rightarrow> Inr x)"

text \<open>\<open>Series.nunique()\<close>: the number of different values that are not missing.\<close>

definition nunique :: "column \<Rightarrow> nat" where
  "nunique xs = length (uniques (dropna xs))"

text \<open>The report sections follow, statement by statement. An \<open>st.info\<close> or
  \<open>st.success\<close> message is the element \<open>Insight\<close> with the entries and numbers it
  formats.\<close>

definition demographic_analysis :: "table \<Rightarrow> unit render" where
  "demographic_analysis df =
     then_r (draw (Header Demographic))
    (then_r (draw (Subheader ''Distribusi Berdasarkan Domisili''))
    (bind_r (eval_r (counts_of df ''domisili'')) (\<lambda>domicile_counts.
     then_r (draw (Pie ''Sebaran Domisili Calon Murid'' domicile_counts))
    (bind_r (eval_r (index0 domicile_counts)) (\<lambda>top_domicile.
     then_r (draw (Insight [top_domicile] []))
    (then_r (draw (Subheader ''Distribusi Berdasarkan Kategori''))
    (bind_r (eval_r (counts_of df ''kategori'')) (\<lambda>category_counts.
     then_r (draw (Bar ''Jumlah Calon Murid per Kategori'' category_counts))
    (bind_r (eval_r (index0 category_counts)) (\<lambda>top_category.
     draw (Insight [top_category] [])))))))))))"

definition geographical_analysis :: "table \<Rightarrow> unit render" where
  "geographical_analysis df =
     then_r (draw (Header Geographic))
    (then_r (draw (Subheader ''Sebaran Berdasarkan Provinsi''))
    (bind_r (eval_r (counts_of df ''alamat_propinsi'')) (\<lambda>province_counts.
     then_r (draw (Bar ''Distribusi Provinsi Asal'' province_counts))
    (then_r (draw (Subheader ''Top 10 Kabupaten/Kota''))
    (bind_r (eval_r (counts_of df ''alamat_kabupaten'')) (\<lambda>counts.
     let regency_counts = take 10 counts in
     then_r (draw (Bar ''Top 10 Kabupaten/Kota Asal'' regency_counts))
    (bind_r (eval_r (index0 province_counts)) (\<lambda>top_province.
     bind_r (eval_r (index0 regency_counts)) (\<lambda>top_regency.
     draw (Insight [top_province, top_regency] [length province_counts]))))))))))"

text \<open>The loop \<open>for col in campus_cols: all_campus.extend(df[col].dropna().tolist())\<close>.\<close>

fun campus_loop :: "string list \<Rightarrow> table \<Rightarrow> column \<Rightarrow> exn + column" where
  "campus_loop [] df all_campus = Inr all_campus"
| "campus_loop (col # cols) df all_campus =
     (case getcol df col of
        Inl e \<Rightarrow> Inl e
      | Inr xs \<Rightarrow> campus_loop cols df (all_campus @ dropna xs))"

definition school_preference_analysis :: "table \<Rightarrow> unit render" where
  "school_preference_analysis df =
     then_r (draw (Header Preferences))
    (then_r (draw (Subheader ''Pilihan Pertama (Tujuan 1)''))
    (bind_r (eval_r (counts_of df ''tujuan1'')) (\<lambda>tujuan1_counts.
     then_r (draw (Pie ''Distribusi Pilihan Pertama'' tujuan1_counts))
    (then_r (draw (Subheader ''Preferensi Kampus''))
    (bind_r (eval_r (campus_loop [''kampus1'', ''kampus2'', ''kampus3''] df [])) (\<lambda>all_campus.
     let campus_counts = value_counts all_campus in
     then_r (draw (Bar ''Popularitas Kampus'' campus_counts))
    (bind_r (eval_r (index0 tujuan1_counts)) (\<lambda>top_tujuan1.
     bind_r (eval_r (index0 campus_counts)) (\<lambda>top_campus.
     draw (Insight [top_tujuan1, top_campus] []))))))))))"

text \<open>\<open>pd.DataFrame({'Ayah': ayah_edu, 'Ibu': ibu_edu}).fillna(0)\<close>: one row for each
  label of either index, with the two counts, 0 where a label is missing from one of
  them.\<close>

definition count_or_zero :: "(cell \<times> nat) list \<Rightarrow> cell \<Rightarrow> nat" where
  "count_or_zero counts v = (case map_of counts v of None \<Rightarrow> 0 | Some c \<Rightarrow> c)"

definition education_comparison ::
  "(cell \<times> nat) list \<Rightarrow> (cell \<times> nat) list \<Rightarrow> (cell \<times> nat \<times> nat) set" where
  "education_comparison ayah_edu ibu_edu =
     (\<lambda>v. (v, count_or_zero ayah_edu v, count_or_zero ibu_edu v))
       ` (set (map fst ayah_edu) \<union> set (map fst ibu_edu))"

definition parent_education_analysis :: "table \<Rightarrow> unit render" where
  "parent_education_analysis df =
     then_r (draw (Header ParentEducation))
    (then_r (draw (Subheader ''Tingkat Pendidikan Ayah''))
    (bind_r (eval_r (counts_of df ''ayah_pendidikan'')) (\<lambda>ayah_edu.
     then_r (draw (Pie ''Distribusi Pendidikan Ayah'' ayah_edu))
    (then_r (draw (Subheader ''Tingkat Pendidikan Ibu''))
    (bind_r (eval_r (counts_of df ''ibu_pendidikan'')) (\<lambda>ibu_edu.
     then_r (draw (Pie ''Distribusi Pendidikan Ibu'' ibu_edu))
    (then_r (draw (Subheader ''Perbandingan Tingkat Pendidikan Orang Tua''))
    (draw (BarGrouped ''Perbandingan Tingkat Pendidikan Ayah vs Ibu''
             (education_comparison ayah_edu ibu_edu))))))))))"

definition parent_occupation_analysis :: "table \<Rightarrow> unit render" where
  "parent_occupation_analysis df =
     then_r (draw (Header ParentOccupation))
    (then_r (draw (Subheader ''Pekerjaan Ayah''))
    (bind_r (eval_r (counts_of df ''ayah_pekerjaan'')) (\<lambda>counts_ayah.
     let ayah_job = take 8 counts_ayah in
     then_r (draw (Bar ''Top 8 Pekerjaan Ayah'' ayah_job))
    (then_r (draw (Subheader ''Pekerjaan Ibu''))
    (bind_r (eval_r (counts_of df ''ibu_pekerjaan'')) (\<lambda>counts_ibu.
     let ibu_job = take 8 counts_ibu in
     then_r (draw (Bar ''Top 8 Pekerjaan Ibu'' ibu_job))
    (bind_r (eval_r (index0 ayah_job)) (\<lambda>top_ayah.
     bind_r (eval_r (index0 ibu_job)) (\<lambda>top_ibu.
     draw (Insight [top_ayah, top_ibu] []))))))))))"

text \<open>\<open>df.apply(lambda row: get_income_category(row['ayah_penghasilan'],
  row['ibu_penghasilan']), axis=1)\<close>: the combined category row by row.\<close>

definition combined_income_column :: "column \<Rightarrow> column \<Rightarrow> column" where
  "combined_income_column ayah ibu = map2 (\<lambda>f m. Str (get_income_category f m)) ayah ibu"

text \<open>\<open>income_analysis\<close> assigns the derived column to the table it was given, which is
  the table \<open>main\<close> goes on to use; the model returns the table after the assignment.\<close>

definition income_analysis :: "table \<Rightarrow> table render" where
  "income_analysis df =
     then_r (draw (Header Income))
    (then_r (draw (Subheader ''Penghasilan Ayah''))
    (bind_r (eval_r (counts_of df ''ayah_penghasilan'')) (\<lambda>ayah_income.
     then_r (draw (BarReindexed ''Distribusi Penghasilan Ayah'' (reorder_by_salary ayah_income)))
    (then_r (draw (Subheader ''Penghasilan Ibu''))
    (bind_r (eval_r (counts_of df ''ibu_penghasilan'')) (\<lambda>ibu_income.
     then_r (draw (BarReindexed ''Distribusi Penghasilan Ibu'' (reorder_by_salary ibu_income)))
    (then_r (draw (Subheader ''Analisis Gabungan Penghasilan Keluarga''))
    (bind_r (eval_r (getcol df ''ayah_penghasilan'')) (\<lambda>ayah.
     bind_r (eval_r (getcol df ''ibu_penghasilan'')) (\<lambda>ibu.
     let df' = setcol ''combined_income_category'' (combined_income_column ayah ibu) df in
     bind_r (eval_r (counts_of df' ''combined_income_category'')) (\<lambda>combined_income.
     then_r (draw (Pie ''Estimasi Penghasilan Keluarga Gabungan'' combined_income))
    (eval_r (Inr df')))))))))))))"

definition school_origin_analysis :: "table \<Rightarrow> unit render" where
  "school_origin_analysis df =
     then_r (draw (Header SchoolOrigin))
    (then_r (draw (Subheader ''Provinsi Asal Sekolah''))
    (bind_r (eval_r (counts_of df ''propinsi_asal_sekolah'')) (\<lambda>school_province.
     then_r (draw (Pie ''Distribusi Provinsi Asal Sekolah'' school_province))
    (then_r (draw (Subheader ''Top 10 Asal Sekolah''))
    (bind_r (eval_r (counts_of df ''asal_sekolah'')) (\<lambda>counts.
     let top_schools = take 10 counts in
     draw (Bar ''10 Sekolah Asal Terbanyak'' top_schools)))))))"

definition summary_statistics :: "table \<Rightarrow> unit render" where
  "summary_statistics df =
     then_r (draw (Header Summary))
    (then_r (draw (Metric ''Total Calon Murid'' (len_df df)))
    (bind_r (eval_r (getcol df ''alamat_propinsi'')) (\<lambda>propinsi.
     then_r (draw (Metric ''Jumlah Provinsi'' (nunique propinsi)))
    (bind_r (eval_r (getcol df ''asal_sekolah'')) (\<lambda>sekolah.
     then_r (draw (Metric ''Jumlah Sekolah Asal'' (nunique sekolah)))
    (bind_r (eval_r (getcol df ''domisili'')) (\<lambda>domisili.
     let jawa_barat_count = length (filter (\<lambda>x. x = Str ''JAWA BARAT'') domisili) in
     then_r (draw (Metric ''Siswa dari Jawa Barat'' jawa_barat_count))
    (then_r (draw (Subheader ''Insights Utama''))
    (draw Findings)))))))))"

text \<open>The keyword arguments that \<open>load_data\<close> passes to \<open>pd.read_csv\<close>.\<close>

datatype bad_lines = Raise_error | Warn | Skip

record csv_options =
  delimiter :: char
  quotechar :: char
  on_bad_lines :: bad_lines
  encoding :: string

text \<open>\<open>load_data\<close>. The CSV reader is not part of the program; it is a parameter here,
  a function from the options and the file to a table or the exception it raises. The
  \<open>except Exception\<close> clause turns any exception of the reader into the error message
  and the result \<open>None\<close>. The caching decorator is left out.\<close>

definition load_data :: "(csv_options \<Rightarrow> 'f \<Rightarrow> exn + table) \<Rightarrow> 'f \<Rightarrow> table option render" where
  "load_data read_csv file =
     (case read_csv \<lparr>delimiter = CHR '';'', quotechar = CHR 0x22, on_bad_lines = Skip,
                      encoding = ''utf-8''\<rparr> file of
        Inr df \<Rightarrow> eval_r (Inr (Some df))
      | Inl e \<Rightarrow> then_r (draw (LoadError e)) (eval_r (Inr None)))"

text \<open>The state of the eight checkboxes, as \<open>st.sidebar.checkbox\<close> returns it in one
  run of the script; it is an input of the page.\<close>

record toggles =
  show_summary :: bool
  show_demographic :: bool
  show_geographic :: bool
  show_preferences :: bool
  show_parent_education :: bool
  show_parent_occupation :: bool
  show_income :: bool
  show_school_origin :: bool

definition default_toggles :: toggles where
  "default_toggles =
     \<lparr>show_summary = True, show_demographic = True, show_geographic = True,
      show_preferences = True, show_parent_education = True, show_parent_occupation = True,
      show_income = True, show_school_origin = True\<rparr>"

text \<open>\<open>if b: ...\<close> around a piece of the page.\<close>

definition when_r :: "bool \<Rightarrow> unit render \<Rightarrow> unit render" where
  "when_r b m = (if b then m else eval_r (Inr ()))"

text \<open>The eight calls of \<open>st.sidebar.checkbox\<close>, each with its label and the default
  \<open>True\<close>.\<close>

definition checkboxes :: "unit render" where
  "checkboxes =
     then_r (draw (Checkbox ''Statistik Ringkasan'' True))
    (then_r (draw (Checkbox ''Analisis Demografis'' True))
    (then_r (draw (Checkbox ''Analisis Geografis'' True))
    (then_r (draw (Checkbox ''Analisis Preferensi Sekolah'' True))
    (then_r (draw (Checkbox ''Pendidikan Orang Tua'' True))
    (then_r (draw (Checkbox ''Pekerjaan Orang Tua'' True))
    (then_r (draw (Checkbox ''Analisis Penghasilan'' True))
    (draw (Checkbox ''Asal Sekolah'' True))))))))"

text \<open>The body of \<open>main\<close> after cleaning: the success message, the checkboxes, each
  section followed by a rule when its checkbox is set, and the expander with the preview
  and the download button for \<open>processed_student_data.csv\<close>.\<close>

definition main_report :: "toggles \<Rightarrow> table \<Rightarrow> unit render" where
  "main_report tg df =
     then_r (draw (SidebarSuccess (len_df df)))
    (then_r (draw SidebarSubheader)
    (then_r checkboxes
    (then_r (when_r (show_summary tg) (then_r (summary_statistics df) (draw Rule)))
    (then_r (when_r (show_demographic tg) (then_r (demographic_analysis df) (draw Rule)))
    (then_r (when_r (show_geographic tg) (then_r (geographical_analysis df) (draw Rule)))
    (then_r (when_r (show_preferences tg) (then_r (school_preference_analysis df) (draw Rule)))
    (then_r (when_r (show_parent_education tg) (then_r (parent_education_analysis df) (draw Rule)))
    (then_r (when_r (show_parent_occupation tg) (then_r (parent_occupation_analysis df) (draw Rule)))
    (bind_r (if show_income tg
             then bind_r (income_analysis df) (\<lambda>df'. then_r (draw Rule) (eval_r (Inr df')))
             else eval_r (Inr df)) (\<lambda>df.
     then_r (when_r (show_school_origin tg) (then_r (school_origin_analysis df) (draw Rule)))
    (then_r (draw (DataPreview df))
    (draw (Download ''processed_student_data.csv'' df)))))))))))))"

text \<open>The list shown when no file has been uploaded.\<close>

definition expected_columns :: "string list" where
  "expected_columns =
     [''nama_calon_murid'', ''kategori'', ''jalur'', ''tujuan1'', ''tujuan2'', ''tujuan3'',
      ''kampus1'', ''kampus2'', ''kampus3'', ''domisili'', ''alamat_propinsi'',
      ''alamat_kabupaten'', ''asal_sekolah'', ''propinsi_asal_sekolah'',
      ''ayah_pendidikan'', ''ayah_pekerjaan'', ''ayah_penghasilan'',
      ''ibu_pendidikan'', ''ibu_pekerjaan'', ''ibu_penghasilan'']"

text \<open>The body of the \<open>try\<close> block of \<open>main\<close>: load, return when nothing was loaded,
  clean, report.\<close>

definition main_try :: "(csv_options \<Rightarrow> 'f \<Rightarrow> exn + table) \<Rightarrow> 'f \<Rightarrow> toggles \<Rightarrow> unit render" where
  "main_try read_csv file tg =
     bind_r (load_data read_csv file) (\<lambda>loaded.
       case loaded of
         None \<Rightarrow> eval_r (Inr ())
       | Some df0 \<Rightarrow> bind_r (eval_r (clean_data df0)) (\<lambda>df. main_report tg df))"

text \<open>\<open>main\<close>: the page for an uploaded file or without one, given the reader and the
  state of the checkboxes. An exception from the \<open>try\<close> block is caught and shown
  with the hint about the expected format.\<close>

definition main :: "(csv_options \<Rightarrow> 'f \<Rightarrow> exn + table) \<Rightarrow> 'f option \<Rightarrow> toggles \<Rightarrow> ui list" where
  "main read_csv uploaded_file tg =
     [Title, Rule, SidebarHeader, FileUploader] @
     (case uploaded_file of
        Some file \<Rightarrow>
          (case main_try read_csv file tg of
             (out, Inr u) \<Rightarrow> out
           | (out, Inl e) \<Rightarrow> out @ [ProcessError e, FormatHint])
      | None \<Rightarrow> [UploadPrompt, ExpectedFormat expected_columns])"

text \<open>The checkbox that belongs to a section.\<close>

fun shown :: "toggles \<Rightarrow> report_section \<Rightarrow> bool" where
  "shown tg Summary = show_summary tg"
| "shown tg Demographic = show_demographic tg"
| "shown tg Geographic = show_geographic tg"
| "shown tg Preferences = show_preferences tg"
| "shown tg ParentEducation = show_parent_education tg"
| "shown tg ParentOccupation = show_parent_occupation tg"
| "shown tg Income = show_income tg"
| "shown tg SchoolOrigin = show_school_origin tg"

section \<open>A sample table\<close>

text \<open>Twelve registrations with the columns the report reads: eleven different regencies
  and schools, nine different occupations of the father, and an income column that holds
  the placeholder next to bracket labels.\<close>

definition sample_registrations :: table where
  "sample_registrations =
     [(''kategori'', replicate 7 (Str ''SMP'') @ replicate 5 (Str ''SMA'')),
      (''tujuan1'', replicate 6 (Str ''SMP A'') @ replicate 6 (Str ''SMA B'')),
      (''kampus1'', replicate 12 (Str ''Kampus 1'')),
      (''kampus2'', replicate 6 (Str ''Kampus 2'') @ replicate 6 (Str ''Kampus 1'')),
      (''kampus3'', replicate 12 (Str ''Kampus 3'')),
      (''domisili'', replicate 8 (Str ''JAWA BARAT'') @ replicate 4 (Str ''DKI JAKARTA'')),
      (''alamat_propinsi'', replicate 8 (Str ''Jawa Barat'') @ replicate 4 (Str ''DKI Jakarta'')),
      (''alamat_kabupaten'',
         map Str [''K03'', ''K01'', ''K02'', ''K03'', ''K04'', ''K05'', ''K06'', ''K07'',
                  ''K08'', ''K09'', ''K10'', ''K11'']),
      (''asal_sekolah'',
         map Str [''S01'', ''S02'', ''S02'', ''S03'', ''S04'', ''S05'', ''S06'', ''S07'',
                  ''S08'', ''S09'', ''S10'', ''S11'']),
      (''propinsi_asal_sekolah'', replicate 9 (Str ''Jawa Barat'') @ replicate 3 (Str ''Banten'')),
      (''ayah_pendidikan'', replicate 8 (Str ''S1'') @ replicate 4 (Str ''S2'')),
      (''ayah_pekerjaan'',
         map Str [''J1'', ''J2'', ''J3'', ''J4'', ''J5'', ''J6'', ''J7'', ''J8'', ''J9'',
                  ''J9'', ''J9'', ''J1'']),
      (''ayah_penghasilan'',
         replicate 5 (Str ''2.500.001 - 5.000.000'') @ replicate 4 (Str ''0 - 2.500.000'')
           @ replicate 3 (Str ''Tidak Diketahui'')),
      (''ibu_pendidikan'', replicate 6 (Str ''S1'') @ replicate 6 (Str ''SMA'')),
      (''ibu_pekerjaan'', replicate 10 (Str ''IRT'') @ replicate 2 (Str ''PNS'')),
      (''ibu_penghasilan'',
         replicate 6 (Str ''0 - 2.500.000'') @ replicate 6 (Str ''5.000.001 - 7.500.000''))]"

section \<open>Properties of the derived household income\<close>

lemma get_max_income_cases:
  "get_max_income c \<in> {0, 2500000, 5000000, 7500000, 10000000, 20000000, 50000000, 100000000}"
  by (simp add: get_max_income_def)

lemma max_income_table:
  "map (\<lambda>l. get_max_income (Str l)) create_salary_order =
     [2500000, 5000000, 7500000, 10000000, 20000000, 50000000, 100000000]"
  by (simp add: create_salary_order_def get_max_income_def)

lemma category_by_sum:
  "get_income_category f m =
     (if get_max_income f + get_max_income m \<le> 5000000 then le_5_juta
      else if get_max_income f + get_max_income m \<le> 10000000 then ''5-10 Juta''
      else if get_max_income f + get_max_income m \<le> 20000000 then ''10-20 Juta''
      else if get_max_income f + get_max_income m \<le> 50000000 then ''20-50 Juta''
      else ''> 50 Juta'')"
  unfolding get_income_category_def category_of_total_def Let_def by (rule refl)

text \<open>
  Claim C1. \<open>get_max_income\<close> sends the seven bracket labels, in the order of
  \<open>create_salary_order\<close>, to the upper bounds 2500000, 5000000, 7500000, 10000000,
  20000000, 50000000 and 100000000, and for every pair of income cells the combined
  category is computed from the sum of the father's and the mother's mapped values: it is
  the label of the bucket in which that sum lies.
\<close>

theorem max_income_table_and_category_from_sum:
  "map (\<lambda>l. get_max_income (Str l)) create_salary_order =
     [2500000, 5000000, 7500000, 10000000, 20000000, 50000000, 100000000]
   \<and> get_max_income (Str ''0 - 2.500.000'') = 2500000
   \<and> get_max_income (Str ''2.500.001 - 5.000.000'') = 5000000
   \<and> get_max_income (Str ''5.000.001 - 7.500.000'') = 7500000
   \<and> get_max_income (Str ''7.500.001 - 10.000.000'') = 10000000
   \<and> get_max_income (Str ''10.000.001 - 20.000.000'') = 20000000
   \<and> get_max_income (Str ''20.000.001 - 50.000.000'') = 50000000
   \<and> get_max_income (Str ''50.000.001 - 100.000.000'') = 100000000
   \<and> get_income_category f m =
       (if get_max_income f + get_max_income m \<le> 5000000 then le_5_juta
        else if get_max_income f + get_max_income m \<le> 10000000 then ''5-10 Juta''
        else if get_max_income f + get_max_income m \<le> 20000000 then ''10-20 Juta''
        else if get_max_income f + get_max_income m \<le> 50000000 then ''20-50 Juta''
        else ''> 50 Juta'')"
proof -
  have t: "get_max_income (Str ''0 - 2.500.000'') = 2500000"
    "get_max_income (Str ''2.500.001 - 5.000.000'') = 5000000"
    "get_max_income (Str ''5.000.001 - 7.500.000'') = 7500000"
    "get_max_income (Str ''7.500.001 - 10.000.000'') = 10000000"
    "get_max_income (Str ''10.000.001 - 20.000.000'') = 20000000"
    "get_max_income (Str ''20.000.001 - 50.000.000'') = 50000000"
    "get_max_income (Str ''50.000.001 - 100.000.000'') = 100000000"
    by (simp_all add: get_max_income_def)
  show ?thesis
    by (intro conjI max_income_table t category_by_sum)
qed

lemma category_labels_distinct:
  "distinct [le_5_juta, ''5-10 Juta'', ''10-20 Juta'', ''20-50 Juta'', ''> 50 Juta'']"
  by simp

lemma category_of_total_range:
  "category_of_total tot \<in> {le_5_juta, ''5-10 Juta'', ''10-20 Juta'', ''20-50 Juta'', ''> 50 Juta''}"
  by (simp add: category_of_total_def)

lemma category_of_total_iff:
  "category_of_total tot = le_5_juta \<longleftrightarrow> tot \<le> 5000000"
  "category_of_total tot = ''5-10 Juta'' \<longleftrightarrow> 5000000 < tot \<and> tot \<le> 10000000"
  "category_of_total tot = ''10-20 Juta'' \<longleftrightarrow> 10000000 < tot \<and> tot \<le> 20000000"
  "category_of_total tot = ''20-50 Juta'' \<longleftrightarrow> 20000000 < tot \<and> tot \<le> 50000000"
  "category_of_total tot = ''> 50 Juta'' \<longleftrightarrow> 50000000 < tot"
  by (simp_all add: category_of_total_def)

lemma category_at_boundaries:
  "get_income_category (Str ''0 - 2.500.000'') (Str ''0 - 2.500.000'') = le_5_juta"
  "get_income_category (Str ''2.500.001 - 5.000.000'') (Str ''2.500.001 - 5.000.000'') = ''5-10 Juta''"
  "get_income_category (Str ''7.500.001 - 10.000.000'') (Str ''7.500.001 - 10.000.000'') = ''10-20 Juta''"
  "get_income_category (Str ''20.000.001 - 50.000.000'') Null = ''20-50 Juta''"
  "get_income_category (Str ''20.000.001 - 50.000.000'') (Str ''0 - 2.500.000'') = ''> 50 Juta''"
  by (simp_all add: get_income_category_def get_max_income_def category_of_total_def)

text \<open>
  Claim C2. The sum is bucketed against the thresholds 5000000, 10000000, 20000000 and
  50000000 into five pairwise different labels: every integer total gets one of them, each
  label stands for one interval of totals, and a total equal to a threshold falls in the
  lower bucket. \<open>get_income_category\<close> applies this bucketing to the sum of the two mapped
  incomes; rows whose sum is exactly 5000000, 10000000, 20000000 or 50000000 show it.
\<close>

theorem income_total_rebucketed:
  "get_income_category f m = category_of_total (get_max_income f + get_max_income m)
   \<and> category_of_total tot \<in> {le_5_juta, ''5-10 Juta'', ''10-20 Juta'', ''20-50 Juta'', ''> 50 Juta''}
   \<and> distinct [le_5_juta, ''5-10 Juta'', ''10-20 Juta'', ''20-50 Juta'', ''> 50 Juta'']
   \<and> (category_of_total tot = le_5_juta) = (tot \<le> 5000000)
   \<and> (category_of_total tot = ''5-10 Juta'') = (5000000 < tot \<and> tot \<le> 10000000)
   \<and> (category_of_total tot = ''10-20 Juta'') = (10000000 < tot \<and> tot \<le> 20000000)
   \<and> (category_of_total tot = ''20-50 Juta'') = (20000000 < tot \<and> tot \<le> 50000000)
   \<and> (category_of_total tot = ''> 50 Juta'') = (50000000 < tot)
   \<and> category_of_total 5000000 = le_5_juta
   \<and> category_of_total 10000000 = ''5-10 Juta''
   \<and> category_of_total 20000000 = ''10-20 Juta''
   \<and> category_of_total 50000000 = ''20-50 Juta''
   \<and> get_income_category (Str ''0 - 2.500.000'') (Str ''0 - 2.500.000'') = le_5_juta
   \<and> get_income_category (Str ''2.500.001 - 5.000.000'') (Str ''2.500.001 - 5.000.000'') = ''5-10 Juta''
   \<and> get_income_category (Str ''7.500.001 - 10.000.000'') (Str ''7.500.001 - 10.000.000'') = ''10-20 Juta''
   \<and> get_income_category (Str ''20.000.001 - 50.000.000'') Null = ''20-50 Juta''"
proof -
  have d: "get_income_category f m = category_of_total (get_max_income f + get_max_income m)"
    by (simp add: get_income_category_def)
  have b: "category_of_total 5000000 = le_5_juta" "category_of_total 10000000 = ''5-10 Juta''"
    "category_of_total 20000000 = ''10-20 Juta''" "category_of_total 50000000 = ''20-50 Juta''"
    by (simp_all add: category_of_total_def)
  show ?thesis
    using d b category_of_total_range [of tot] category_labels_distinct
      category_of_total_iff [of tot] category_at_boundaries
    by blast
qed

lemma unrecognised_is_zero:
  "c \<notin> Str ` set create_salary_order \<Longrightarrow> get_max_income c = 0"
  by (simp add: create_salary_order_def get_max_income_def)

lemma placeholder_unrecognised:
  "Str ''Tidak Diketahui'' \<notin> Str ` set create_salary_order"
  by (simp add: create_salary_order_def)

text \<open>
  Claim C8. \<open>get_max_income\<close> returns a number for every cell: a cell that is not one of
  the seven bracket labels, such as the placeholder Tidak Diketahui that cleaning puts in,
  gives 0. A row whose two income cells are both unrecognised therefore sums to 0 and gets
  the lowest combined category.
\<close>

theorem unrecognised_income_lowest_category:
  "(c \<notin> Str ` set create_salary_order \<longrightarrow> get_max_income c = 0)
   \<and> (a \<notin> Str ` set create_salary_order \<and> b \<notin> Str ` set create_salary_order
        \<longrightarrow> get_income_category a b = le_5_juta)"
proof -
  have "get_income_category a b = le_5_juta"
    if "a \<notin> Str ` set create_salary_order" "b \<notin> Str ` set create_salary_order"
    using that [THEN unrecognised_is_zero]
    by (simp add: get_income_category_def category_of_total_def)
  then show ?thesis using unrecognised_is_zero by blast
qed

theorem unrecognised_income_lowest_category_witness:
  "Str ''Tidak Diketahui'' \<notin> Str ` set create_salary_order
   \<and> Null \<notin> Str ` set create_salary_order
   \<and> get_max_income (Str ''Tidak Diketahui'') = 0
   \<and> get_income_category (Str ''Tidak Diketahui'') Null = le_5_juta"
proof -
  have n: "Null \<notin> Str ` set create_salary_order" by auto
  from unrecognised_income_lowest_category [of "Str ''Tidak Diketahui''" "Str ''Tidak Diketahui''" Null]
    placeholder_unrecognised n
  show ?thesis by blast
qed

text \<open>
  Claim C9. \<open>get_income_category\<close> is commutative: the father's and the mother's income
  can be swapped without changing the combined category, for one row and hence for the
  whole derived column.
\<close>

theorem get_income_category_commutes:
  "get_income_category a b = get_income_category b a
   \<and> map2 get_income_category fathers mothers
       = map2 (\<lambda>m f. get_income_category m f) mothers fathers"
proof -
  have c: "get_income_category x y = get_income_category y x" for x y
    by (simp add: get_income_category_def add.commute)
  have "map2 get_income_category fathers mothers = map2 get_income_category mothers fathers"
  proof (induction fathers arbitrary: mothers)
    case Nil
    then show ?case by simp
  next
    case (Cons f fs)
    then show ?case by (cases mothers) (simp_all add: c)
  qed
  with c show ?thesis by simp
qed

section \<open>Properties of cleaning\<close>

lemma names_map_cells: "map fst (map (\<lambda>(n, ys). (n, g n ys)) df) = map fst df"
  by (induction df) auto

lemma getcols_existing:
  "c \<in> fst ` set df \<Longrightarrow> getcols df c = Inr (map snd (filter (\<lambda>(n, xs). n = c) df))"
  by (simp add: getcols_def)

lemma getcols_missing: "c \<notin> fst ` set df \<Longrightarrow> getcols df c = Inl (KeyError c)"
  by (simp add: getcols_def)

lemma setcols_getcols:
  "setcols c (map f (map snd (filter (\<lambda>(n, xs). n = c) df))) df
   = map (\<lambda>(n, ys). (n, if n = c then f ys else ys)) df"
  by (induction df) auto

lemma replace_loop_step:
  assumes "c \<in> fst ` set df"
  shows "replace_loop (c # cols) df
       = replace_loop cols
           (map (\<lambda>(n, ys). (n, if n = c
              then replace_value (Str backslash_N) (Str ''0 - 2.500.000'') ys else ys)) df)"
  by (simp only: replace_loop.simps getcols_existing [OF assms] sum.case setcols_getcols)

lemma replace_loop_ok:
  assumes "set cols \<subseteq> fst ` set df" "distinct cols"
  shows "replace_loop cols df =
         Inr (map (\<lambda>(n, ys). (n, if n \<in> set cols
                then replace_value (Str backslash_N) (Str ''0 - 2.500.000'') ys else ys)) df)"
  using assms
proof (induction cols arbitrary: df)
  case Nil
  then show ?case by (simp add: case_prod_unfold)
next
  case (Cons c cols)
  let ?f = "replace_value (Str backslash_N) (Str ''0 - 2.500.000'')"
  let ?df = "map (\<lambda>(n, ys). (n, if n = c then ?f ys else ys)) df"
  from Cons.prems have c: "c \<in> fst ` set df" by simp
  have s: "setcols c (map ?f (map snd (filter (\<lambda>(n, xs). n = c) df))) df = ?df"
    by (rule setcols_getcols)
  have n: "map fst ?df = map fst df" by (rule names_map_cells)
  have "replace_loop cols ?df =
     Inr (map (\<lambda>(n, ys). (n, if n \<in> set cols then ?f ys else ys)) ?df)"
  proof (rule Cons.IH)
    have "fst ` set ?df = fst ` set df" using n by (metis set_map)
    then show "set cols \<subseteq> fst ` set ?df" using Cons.prems(1) by simp
    show "distinct cols" using Cons.prems(2) by simp
  qed
  moreover have "map (\<lambda>(n, ys). (n, if n \<in> set cols then ?f ys else ys)) ?df
     = map (\<lambda>(n, ys). (n, if n \<in> set (c # cols) then ?f ys else ys)) df"
    using Cons.prems(2) by (auto simp: case_prod_unfold)
  ultimately show ?case
    using s by (simp add: getcols_existing [OF c])
qed

lemma fill_after_replace:
  "(\<lambda>x. if x = Null then Str ''Tidak Diketahui'' else x)
     \<circ> (\<lambda>x. if x = Str backslash_N then Str ''0 - 2.500.000'' else x)
   = (\<lambda>x. if x = Null then Str ''Tidak Diketahui''
           else if x = Str backslash_N then Str ''0 - 2.500.000'' else x)"
  by (rule ext) simp

lemma clean_data_ok:
  assumes "''ayah_penghasilan'' \<in> fst ` set df" "''ibu_penghasilan'' \<in> fst ` set df"
  shows "clean_data df = Inr (map (\<lambda>(n, ys). (n, map (cleaned_cell n) ys)) df)"
proof -
  have d: "distinct salary_columns" by (simp add: salary_columns_def)
  have c: "set salary_columns \<subseteq> fst ` set df"
    using assms by (simp add: salary_columns_def)
  have "map (\<lambda>x. if x = Null then Str ''Tidak Diketahui'' else x)
          (if n \<in> set salary_columns
           then replace_value (Str backslash_N) (Str ''0 - 2.500.000'') ys else ys)
        = map (cleaned_cell n) ys" for n ys
    unfolding replace_value_def cleaned_cell_def
    by (cases "n \<in> set salary_columns")
      (simp_all only: if_True if_False map_map fill_after_replace simp_thms)
  then show ?thesis
    unfolding clean_data_def replace_loop_ok [OF c d] fillna_def
    by (simp add: case_prod_unfold comp_def)
qed

lemma clean_data_no_father:
  assumes "''ayah_penghasilan'' \<notin> fst ` set df"
  shows "clean_data df = Inl (KeyError ''ayah_penghasilan'')"
  using assms by (simp add: clean_data_def salary_columns_def getcols_missing)

lemma clean_data_no_mother:
  assumes "''ayah_penghasilan'' \<in> fst ` set df" "''ibu_penghasilan'' \<notin> fst ` set df"
  shows "clean_data df = Inl (KeyError ''ibu_penghasilan'')"
proof -
  let ?f = "replace_value (Str backslash_N) (Str ''0 - 2.500.000'')"
  let ?df = "map (\<lambda>(n, ys). (n, if n = ''ayah_penghasilan'' then ?f ys else ys)) df"
  have "map fst ?df = map fst df" by (rule names_map_cells)
  then have "fst ` set ?df = fst ` set df" by (metis set_map)
  with assms(2) have "''ibu_penghasilan'' \<notin> fst ` set ?df" by simp
  then have g: "getcols ?df ''ibu_penghasilan'' = Inl (KeyError ''ibu_penghasilan'')"
    by (rule getcols_missing)
  have "replace_loop salary_columns df = replace_loop [''ibu_penghasilan''] ?df"
    unfolding salary_columns_def by (rule replace_loop_step [OF assms(1)])
  also have "\<dots> = Inl (KeyError ''ibu_penghasilan'')"
    using g by simp
  finally show ?thesis by (simp add: clean_data_def)
qed

lemma cleaned_cell_cases:
  "cleaned_cell n Null = Str ''Tidak Diketahui''"
  "cleaned_cell ''ayah_penghasilan'' (Str backslash_N) = Str ''0 - 2.500.000''"
  "cleaned_cell ''ibu_penghasilan'' (Str backslash_N) = Str ''0 - 2.500.000''"
  "x \<noteq> Null \<Longrightarrow>
     x \<noteq> Str backslash_N \<or> (n \<noteq> ''ayah_penghasilan'' \<and> n \<noteq> ''ibu_penghasilan'')
     \<Longrightarrow> cleaned_cell n x = x"
  by (auto simp: cleaned_cell_def salary_columns_def)

text \<open>
  Claim C3, as stated, for every input table: it fails on a table that lacks one of the two
  income columns, where \<open>clean_data\<close> raises \<open>KeyError\<close> and returns no table, so that
  the missing cell of the table below is not filled.
\<close>

theorem clean_data_without_income_column:
  "clean_data [(''nama_calon_murid'', [Null])] = Inl (KeyError ''ayah_penghasilan'')"
  by (simp add: clean_data_def salary_columns_def getcols_def)

text \<open>
  Claim C3, amended. For every table that has the columns ayah_penghasilan and
  ibu_penghasilan, \<open>clean_data\<close> returns the table with the same columns in the same
  order, where each cell is changed as \<open>cleaned_cell\<close> says: the sentinel backslash-N
  becomes 0 - 2.500.000 in exactly the columns labelled ayah_penghasilan or
  ibu_penghasilan, every missing cell of every column becomes Tidak Diketahui, and no
  other cell changes. On a table that lacks ayah_penghasilan \<open>clean_data\<close> raises
  \<open>KeyError\<close> for it, and on a table that has it but lacks ibu_penghasilan it raises
  \<open>KeyError\<close> for ibu_penghasilan; in both cases no table is returned.
\<close>

theorem clean_data_cellwise:
  "(''ayah_penghasilan'' \<in> fst ` set df \<and> ''ibu_penghasilan'' \<in> fst ` set df \<longrightarrow>
      clean_data df = Inr (map (\<lambda>(n, ys). (n, map (cleaned_cell n) ys)) df))
   \<and> (''ayah_penghasilan'' \<notin> fst ` set df \<longrightarrow>
      clean_data df = Inl (KeyError ''ayah_penghasilan''))
   \<and> (''ayah_penghasilan'' \<in> fst ` set df \<and> ''ibu_penghasilan'' \<notin> fst ` set df \<longrightarrow>
      clean_data df = Inl (KeyError ''ibu_penghasilan''))
   \<and> cleaned_cell n Null = Str ''Tidak Diketahui''
   \<and> cleaned_cell ''ayah_penghasilan'' (Str backslash_N) = Str ''0 - 2.500.000''
   \<and> cleaned_cell ''ibu_penghasilan'' (Str backslash_N) = Str ''0 - 2.500.000''
   \<and> (x \<noteq> Null
        \<and> (x \<noteq> Str backslash_N \<or> (n \<noteq> ''ayah_penghasilan'' \<and> n \<noteq> ''ibu_penghasilan''))
      \<longrightarrow> cleaned_cell n x = x)"
  using clean_data_ok [of df] clean_data_no_father [of df] clean_data_no_mother [of df]
    cleaned_cell_cases
  by blast

theorem clean_data_cellwise_witness:
  "clean_data
     [(''jalur'', [Str backslash_N, Null]),
      (''ayah_penghasilan'', [Str backslash_N, Null]),
      (''ibu_penghasilan'', [Str ''2.500.001 - 5.000.000'', Str backslash_N])]
   = Inr
     [(''jalur'', [Str backslash_N, Str ''Tidak Diketahui'']),
      (''ayah_penghasilan'', [Str ''0 - 2.500.000'', Str ''Tidak Diketahui'']),
      (''ibu_penghasilan'', [Str ''2.500.001 - 5.000.000'', Str ''0 - 2.500.000''])]
   \<and> clean_data [(''ayah_penghasilan'', [Str backslash_N, Null])]
     = Inl (KeyError ''ibu_penghasilan'')"
proof -
  let ?df = "[(''jalur'', [Str backslash_N, Null]),
      (''ayah_penghasilan'', [Str backslash_N, Null]),
      (''ibu_penghasilan'', [Str ''2.500.001 - 5.000.000'', Str backslash_N])]"
  let ?df' = "[(''ayah_penghasilan'', [Str backslash_N, Null])]"
  have c: "''ayah_penghasilan'' \<in> fst ` set ?df" "''ibu_penghasilan'' \<in> fst ` set ?df"
    by simp_all
  have c': "''ayah_penghasilan'' \<in> fst ` set ?df'" "''ibu_penghasilan'' \<notin> fst ` set ?df'"
    by simp_all
  from clean_data_cellwise [of ?df] c
  have "clean_data ?df = Inr (map (\<lambda>(n, ys). (n, map (cleaned_cell n) ys)) ?df)"
    by blast
  then have a: "clean_data ?df = Inr
     [(''jalur'', [Str backslash_N, Str ''Tidak Diketahui'']),
      (''ayah_penghasilan'', [Str ''0 - 2.500.000'', Str ''Tidak Diketahui'']),
      (''ibu_penghasilan'', [Str ''2.500.001 - 5.000.000'', Str ''0 - 2.500.000''])]"
    by (simp add: cleaned_cell_def salary_columns_def)
  from clean_data_cellwise [of ?df'] c'
  have b: "clean_data ?df' = Inl (KeyError ''ibu_penghasilan'')"
    by blast
  from a b show ?thesis by (rule conjI)
qed

section \<open>Properties of value counts\<close>

lemma set_uniques [simp]: "set (uniques xs) = set xs"
  by (induction xs) auto

lemma distinct_uniques [simp]: "distinct (uniques xs)"
  by (induction xs) auto

lemma length_uniques: "length (uniques xs) = card (set xs)"
  by (metis distinct_card distinct_uniques set_uniques)

lemma value_counts_mset:
  "mset (value_counts xs) = mset (map (\<lambda>v. (v, count_list (dropna xs) v)) (uniques (dropna xs)))"
  by (simp add: value_counts_def Let_def)

lemma value_counts_set:
  "set (value_counts xs) = (\<lambda>v. (v, count_list (dropna xs) v)) ` set (dropna xs)"
  by (simp add: value_counts_def Let_def)

lemma count_dropna: "v \<noteq> Null \<Longrightarrow> count_list (dropna xs) v = count_list xs v"
  by (induction xs) (auto simp: dropna_def)

lemma set_dropna: "set (dropna xs) = set xs - {Null}"
  by (auto simp: dropna_def)

lemma value_counts_set': "set (value_counts xs) = (\<lambda>v. (v, count_list xs v)) ` (set xs - {Null})"
  unfolding value_counts_set set_dropna by (auto simp: count_dropna)

lemma labels_mset: "mset (map fst (value_counts xs)) = mset (uniques (dropna xs))"
proof -
  have "mset (map fst (value_counts xs))
      = mset (map fst (map (\<lambda>v. (v, count_list (dropna xs) v)) (uniques (dropna xs))))"
    by (simp only: mset_map value_counts_mset)
  also have "\<dots> = mset (uniques (dropna xs))"
    by (simp add: comp_def)
  finally show ?thesis .
qed

lemma distinct_labels: "distinct (map fst (value_counts xs))"
  using labels_mset [of xs] distinct_uniques by (metis mset_eq_imp_distinct_iff)

lemma length_value_counts: "length (value_counts xs) = card (set xs - {Null})"
  by (simp add: value_counts_def Let_def length_uniques set_dropna)

lemma value_counts_descending: "sorted_wrt (\<lambda>p q. snd q \<le> snd p) (value_counts xs)"
proof -
  have "sorted (map (\<lambda>(v, c). - int c) (value_counts xs))"
    by (simp add: value_counts_def Let_def)
  then have "sorted_wrt (\<lambda>p q. (\<lambda>(v, c). - int c) p \<le> (\<lambda>(v, c). - int c) q) (value_counts xs)"
    by (simp add: sorted_map)
  then show ?thesis
    by (rule sorted_wrt_mono_rel [rotated]) (auto simp: case_prod_unfold)
qed

lemma take_drop_descending:
  assumes "sorted_wrt R xs" "p \<in> set (take n xs)" "q \<in> set (drop n xs)"
  shows "R p q"
  using assms by (metis append_take_drop_id sorted_wrt_append)

lemma map_of_value_counts:
  "map_of (value_counts xs) v = (if v \<in> set xs - {Null} then Some (count_list xs v) else None)"
proof (cases "v \<in> set xs - {Null}")
  case True
  then have "(v, count_list xs v) \<in> set (value_counts xs)" by (auto simp: value_counts_set')
  then show ?thesis using True distinct_labels by (simp add: map_of_eq_Some_iff)
next
  case False
  then have "v \<notin> fst ` set (value_counts xs)" by (auto simp: value_counts_set')
  then have "map_of (value_counts xs) v = None" by (simp add: map_of_eq_None_iff)
  with False show ?thesis by auto
qed

lemma labels_set: "set (map fst (value_counts xs)) = set xs - {Null}"
  unfolding set_map value_counts_set' image_image by simp

lemma fst_map_snd: "map fst (map (\<lambda>(l, c). (l, g c)) ps) = map fst ps"
  by (induction ps) auto

lemma reorder_value_counts:
  "reorder_by_salary (value_counts xs)
   = map (\<lambda>l. (l, Some (count_list xs l))) (filter (\<lambda>l. l \<in> set xs) (map Str create_salary_order))"
proof -
  have f: "filter (\<lambda>x. x \<in> set (map fst (value_counts xs))) (map Str create_salary_order)
         = filter (\<lambda>l. l \<in> set xs) (map Str create_salary_order)"
    unfolding labels_set by (rule filter_cong) auto
  show ?thesis
    unfolding reorder_by_salary_def Let_def reindex_def f
    by (rule map_cong) (auto simp: map_of_value_counts)
qed

lemma distinct_salary_order: "distinct (map Str create_salary_order)"
  by (simp add: create_salary_order_def)

lemma reorder_set:
  "set (reorder_by_salary (value_counts xs))
   = (\<lambda>(l, c). (l, Some c)) ` {p \<in> set (value_counts xs). fst p \<in> Str ` set create_salary_order}"
  unfolding reorder_value_counts value_counts_set' by force

lemma reorder_subseq:
  "subseq (map fst (reorder_by_salary (value_counts xs))) (map Str create_salary_order)"
  unfolding reorder_value_counts by (simp add: comp_def)

lemma reorder_permutation:
  assumes "set xs - {Null} \<subseteq> Str ` set create_salary_order"
  shows "mset (reorder_by_salary (value_counts xs))
       = mset (map (\<lambda>(l, c). (l, Some c)) (value_counts xs))"
proof -
  have d1: "distinct (reorder_by_salary (value_counts xs))"
  proof -
    have "distinct (map fst (reorder_by_salary (value_counts xs)))"
      unfolding reorder_value_counts using distinct_salary_order
      by (simp add: comp_def)
    then show ?thesis by (rule distinct_map [THEN iffD1, THEN conjunct1])
  qed
  have d2: "distinct (map (\<lambda>(l, c). (l, Some c)) (value_counts xs))"
  proof -
    have "distinct (map fst (map (\<lambda>(l, c). (l, Some c)) (value_counts xs)))"
      unfolding fst_map_snd by (rule distinct_labels)
    then show ?thesis by (rule distinct_map [THEN iffD1, THEN conjunct1])
  qed
  have "{p \<in> set (value_counts xs). fst p \<in> Str ` set create_salary_order} = set (value_counts xs)"
    using assms by (auto simp: value_counts_set')
  then have "set (reorder_by_salary (value_counts xs)) = set (map (\<lambda>(l, c). (l, Some c)) (value_counts xs))"
    unfolding reorder_set by simp
  with d1 d2 show ?thesis by (metis set_eq_iff_mset_eq_distinct)
qed

section \<open>Properties of the page\<close>

lemma fst_draw [simp]: "fst (draw u) = [u]" by (simp add: draw_def)
lemma snd_draw [simp]: "snd (draw u) = Inr ()" by (simp add: draw_def)
lemma fst_eval_r [simp]: "fst (eval_r r) = []" by (simp add: eval_r_def)
lemma snd_eval_r [simp]: "snd (eval_r r) = r" by (simp add: eval_r_def)

lemma fst_bind_r:
  "fst (bind_r m f) = fst m @ (case snd m of Inl e \<Rightarrow> [] | Inr x \<Rightarrow> fst (f x))"
  by (cases m) (auto simp: bind_r_def split: sum.splits prod.splits)

lemma snd_bind_r:
  "snd (bind_r m f) = (case snd m of Inl e \<Rightarrow> Inl e | Inr x \<Rightarrow> snd (f x))"
  by (cases m) (auto simp: bind_r_def split: sum.splits prod.splits)

lemma fst_then_r:
  "fst (then_r m n) = fst m @ (case snd m of Inl e \<Rightarrow> [] | Inr x \<Rightarrow> fst n)"
  by (simp add: then_r_def fst_bind_r)

lemma snd_then_r:
  "snd (then_r m n) = (case snd m of Inl e \<Rightarrow> Inl e | Inr x \<Rightarrow> snd n)"
  by (simp add: then_r_def snd_bind_r)

lemmas render_simps = fst_bind_r snd_bind_r fst_then_r snd_then_r

lemma summary_header: "Header s \<in> set (fst (summary_statistics df)) \<longleftrightarrow> s = Summary"
  by (auto simp: summary_statistics_def render_simps Let_def split: sum.splits)

lemma demographic_header: "Header s \<in> set (fst (demographic_analysis df)) \<longleftrightarrow> s = Demographic"
  by (auto simp: demographic_analysis_def render_simps Let_def split: sum.splits)

lemma geographical_header: "Header s \<in> set (fst (geographical_analysis df)) \<longleftrightarrow> s = Geographic"
  by (auto simp: geographical_analysis_def render_simps Let_def split: sum.splits)

lemma preference_header: "Header s \<in> set (fst (school_preference_analysis df)) \<longleftrightarrow> s = Preferences"
  by (auto simp: school_preference_analysis_def render_simps Let_def split: sum.splits)

lemma education_header: "Header s \<in> set (fst (parent_education_analysis df)) \<longleftrightarrow> s = ParentEducation"
  by (auto simp: parent_education_analysis_def render_simps Let_def split: sum.splits)

lemma occupation_header: "Header s \<in> set (fst (parent_occupation_analysis df)) \<longleftrightarrow> s = ParentOccupation"
  by (auto simp: parent_occupation_analysis_def render_simps Let_def split: sum.splits)

lemma income_header: "Header s \<in> set (fst (income_analysis df)) \<longleftrightarrow> s = Income"
  by (auto simp: income_analysis_def render_simps Let_def split: sum.splits)

lemma origin_header: "Header s \<in> set (fst (school_origin_analysis df)) \<longleftrightarrow> s = SchoolOrigin"
  by (auto simp: school_origin_analysis_def render_simps Let_def split: sum.splits)

lemmas header_simps = summary_header demographic_header geographical_header preference_header
  education_header occupation_header income_header origin_header

lemma in_then_r:
  "x \<in> set (fst (then_r m n)) \<longleftrightarrow> x \<in> set (fst m) \<or> (\<not> isl (snd m) \<and> x \<in> set (fst n))"
  by (cases "snd m") (simp_all add: fst_then_r)

lemma in_bind_r:
  "x \<in> set (fst (bind_r m f)) \<longleftrightarrow>
     x \<in> set (fst m) \<or> (\<not> isl (snd m) \<and> x \<in> set (fst (f (projr (snd m)))))"
  by (cases "snd m") (simp_all add: fst_bind_r)

lemma ok_then_r: "\<not> isl (snd (then_r m n)) \<longleftrightarrow> \<not> isl (snd m) \<and> \<not> isl (snd n)"
  by (cases "snd m") (simp_all add: snd_then_r)

lemma ok_bind_r:
  "\<not> isl (snd (bind_r m f)) \<longleftrightarrow> \<not> isl (snd m) \<and> \<not> isl (snd (f (projr (snd m))))"
  by (cases "snd m") (simp_all add: snd_bind_r)

lemma in_when_r: "x \<in> set (fst (when_r b m)) \<longleftrightarrow> b \<and> x \<in> set (fst m)"
  by (simp add: when_r_def)

lemma ok_when_r: "\<not> isl (snd (when_r b m)) \<longleftrightarrow> (b \<longrightarrow> \<not> isl (snd m))"
  by (simp add: when_r_def)

lemma header_checkboxes: "Header s \<notin> set (fst checkboxes)"
  by (simp add: checkboxes_def fst_then_r)

lemma ok_checkboxes: "\<not> isl (snd checkboxes)"
  by (simp add: checkboxes_def snd_then_r)

lemma income_step_header:
  "Header s \<in> set (fst (if b then bind_r (income_analysis df) (\<lambda>df'. then_r (draw Rule) (eval_r (Inr df'))) else eval_r (Inr df)))
   \<longleftrightarrow> b \<and> s = Income"
  by (auto simp: in_bind_r in_then_r income_header)

lemma report_headers_sound:
  "Header s \<in> set (fst (main_report tg df)) \<Longrightarrow> shown tg s"
  unfolding main_report_def
  by (auto simp: in_then_r in_bind_r in_when_r header_checkboxes header_simps split: if_splits)

lemma report_headers_complete:
  assumes "snd (main_report tg df) = Inr u" "shown tg s"
  shows "Header s \<in> set (fst (main_report tg df))"
proof -
  from assms(1) have ok: "\<not> isl (snd (main_report tg df))" by simp
  show ?thesis
    using ok assms(2) unfolding main_report_def
    by (cases s) (auto simp: in_then_r in_bind_r in_when_r ok_then_r ok_bind_r ok_when_r
        ok_checkboxes header_simps split: if_splits)
qed

section \<open>Properties of the charts\<close>

lemma counts_of_col: "getcol df c = Inr xs \<Longrightarrow> counts_of df c = Inr (value_counts xs)"
  by (simp add: counts_of_def)

lemma geographical_charts:
  assumes "getcol df ''alamat_propinsi'' = Inr ps" "getcol df ''alamat_kabupaten'' = Inr ks"
  shows "Bar ''Distribusi Provinsi Asal'' (value_counts ps) \<in> set (fst (geographical_analysis df))"
    and "Bar ''Top 10 Kabupaten/Kota Asal'' (take 10 (value_counts ks)) \<in> set (fst (geographical_analysis df))"
  using assms
  by (simp_all add: geographical_analysis_def render_simps counts_of_col Let_def split: sum.splits)

lemma school_origin_charts:
  assumes "getcol df ''propinsi_asal_sekolah'' = Inr sp" "getcol df ''asal_sekolah'' = Inr ss"
  shows "Pie ''Distribusi Provinsi Asal Sekolah'' (value_counts sp) \<in> set (fst (school_origin_analysis df))"
    and "Bar ''10 Sekolah Asal Terbanyak'' (take 10 (value_counts ss)) \<in> set (fst (school_origin_analysis df))"
  using assms
  by (simp_all add: school_origin_analysis_def render_simps counts_of_col Let_def split: sum.splits)

lemma occupation_charts:
  assumes "getcol df ''ayah_pekerjaan'' = Inr aj" "getcol df ''ibu_pekerjaan'' = Inr ij"
  shows "Bar ''Top 8 Pekerjaan Ayah'' (take 8 (value_counts aj)) \<in> set (fst (parent_occupation_analysis df))"
    and "Bar ''Top 8 Pekerjaan Ibu'' (take 8 (value_counts ij)) \<in> set (fst (parent_occupation_analysis df))"
  using assms
  by (simp_all add: parent_occupation_analysis_def render_simps counts_of_col Let_def split: sum.splits)

lemma demographic_charts:
  assumes "getcol df ''domisili'' = Inr ds"
  shows "Pie ''Sebaran Domisili Calon Murid'' (value_counts ds) \<in> set (fst (demographic_analysis df))"
    and "getcol df ''kategori'' = Inr cs \<Longrightarrow> value_counts ds \<noteq> [] \<Longrightarrow>
         Bar ''Jumlah Calon Murid per Kategori'' (value_counts cs) \<in> set (fst (demographic_analysis df))"
  using assms
  by (simp_all add: demographic_analysis_def render_simps counts_of_col Let_def index0_def split: sum.splits list.splits)

lemma campus_loop_all:
  assumes "getcol df ''kampus1'' = Inr k1" "getcol df ''kampus2'' = Inr k2" "getcol df ''kampus3'' = Inr k3"
  shows "campus_loop [''kampus1'', ''kampus2'', ''kampus3''] df [] = Inr (dropna k1 @ dropna k2 @ dropna k3)"
  using assms by simp

lemma preference_charts:
  assumes "getcol df ''tujuan1'' = Inr ts"
  shows "Pie ''Distribusi Pilihan Pertama'' (value_counts ts) \<in> set (fst (school_preference_analysis df))"
    and "getcol df ''kampus1'' = Inr k1 \<Longrightarrow> getcol df ''kampus2'' = Inr k2 \<Longrightarrow> getcol df ''kampus3'' = Inr k3 \<Longrightarrow>
         Bar ''Popularitas Kampus'' (value_counts (dropna k1 @ dropna k2 @ dropna k3))
           \<in> set (fst (school_preference_analysis df))"
  using assms
  by (simp_all add: school_preference_analysis_def render_simps counts_of_col Let_def split: sum.splits)

lemma education_charts:
  assumes "getcol df ''ayah_pendidikan'' = Inr ae"
  shows "Pie ''Distribusi Pendidikan Ayah'' (value_counts ae) \<in> set (fst (parent_education_analysis df))"
    and "getcol df ''ibu_pendidikan'' = Inr ie \<Longrightarrow>
         Pie ''Distribusi Pendidikan Ibu'' (value_counts ie) \<in> set (fst (parent_education_analysis df))"
  using assms
  by (simp_all add: parent_education_analysis_def render_simps counts_of_col Let_def split: sum.splits)

lemma income_charts:
  assumes "getcol df ''ayah_penghasilan'' = Inr fs" "getcol df ''ibu_penghasilan'' = Inr ms"
  shows "BarReindexed ''Distribusi Penghasilan Ayah'' (reorder_by_salary (value_counts fs))
           \<in> set (fst (income_analysis df))"
    and "BarReindexed ''Distribusi Penghasilan Ibu'' (reorder_by_salary (value_counts ms))
           \<in> set (fst (income_analysis df))"
  using assms
  by (simp_all add: income_analysis_def render_simps counts_of_col Let_def split: sum.splits)

lemma top_counts:
  "length (take n (value_counts xs)) = min n (card (set xs - {Null}))"
  "sorted_wrt (\<lambda>p q. snd q \<le> snd p) (take n (value_counts xs))"
  "p \<in> set (take n (value_counts xs)) \<Longrightarrow> q \<in> set (drop n (value_counts xs)) \<Longrightarrow> snd q \<le> snd p"
  "p \<in> set (value_counts xs) \<Longrightarrow> snd p = count_list xs (fst p) \<and> fst p \<in> set xs \<and> fst p \<noteq> Null"
proof -
  show "length (take n (value_counts xs)) = min n (card (set xs - {Null}))"
    by (simp add: length_value_counts min.commute)
  show "sorted_wrt (\<lambda>p q. snd q \<le> snd p) (take n (value_counts xs))"
    using value_counts_descending [of xs] by (rule sorted_wrt_take)
  show "snd q \<le> snd p" if "p \<in> set (take n (value_counts xs))" "q \<in> set (drop n (value_counts xs))"
    using take_drop_descending [OF value_counts_descending that] .
  show "snd p = count_list xs (fst p) \<and> fst p \<in> set xs \<and> fst p \<noteq> Null" if "p \<in> set (value_counts xs)"
    using that by (auto simp: value_counts_set')
qed

text \<open>
  Claim C4, as stated: the reordered series does not hold the same pairs as the value counts
  when an income cell is not a bracket label. The placeholder Tidak Diketahui is counted by
  \<open>value_counts\<close> and is gone after the reordering.
\<close>

theorem salary_reorder_drops_other_labels:
  "value_counts [Str ''Tidak Diketahui'', Str ''0 - 2.500.000'']
     = [(Str ''Tidak Diketahui'', 1), (Str ''0 - 2.500.000'', 1)]
   \<and> reorder_by_salary (value_counts [Str ''Tidak Diketahui'', Str ''0 - 2.500.000''])
     = [(Str ''0 - 2.500.000'', Some 1)]"
  by code_simp

text \<open>
  Claim C4, amended. The reordered series lists, in the ascending order of
  \<open>create_salary_order\<close>, each bracket label that occurs in the column with its count:
  it holds exactly the (label, count) pairs of the value counts whose label is one of the
  seven bracket labels, and pairs with any other label are dropped. When every value of the
  column is a bracket label the reordering is a permutation of the value counts. Both income
  charts of \<open>income_analysis\<close> plot this series.
\<close>

theorem salary_reorder_keeps_bracket_counts:
  "reorder_by_salary (value_counts xs)
     = map (\<lambda>l. (l, Some (count_list xs l)))
         (filter (\<lambda>l. l \<in> set xs) (map Str create_salary_order))
   \<and> set (reorder_by_salary (value_counts xs))
     = (\<lambda>(l, c). (l, Some c))
         ` {p \<in> set (value_counts xs). fst p \<in> Str ` set create_salary_order}
   \<and> subseq (map fst (reorder_by_salary (value_counts xs))) (map Str create_salary_order)
   \<and> (set xs - {Null} \<subseteq> Str ` set create_salary_order \<longrightarrow>
        mset (reorder_by_salary (value_counts xs))
          = mset (map (\<lambda>(l, c). (l, Some c)) (value_counts xs)))
   \<and> (getcol df ''ayah_penghasilan'' = Inr fs \<and> getcol df ''ibu_penghasilan'' = Inr ms \<longrightarrow>
        BarReindexed ''Distribusi Penghasilan Ayah'' (reorder_by_salary (value_counts fs))
          \<in> set (fst (income_analysis df))
      \<and> BarReindexed ''Distribusi Penghasilan Ibu'' (reorder_by_salary (value_counts ms))
          \<in> set (fst (income_analysis df)))"
  using reorder_value_counts [of xs] reorder_set [of xs] reorder_subseq [of xs]
    reorder_permutation [of xs] income_charts [of df fs ms]
  by blast

theorem salary_reorder_keeps_bracket_counts_witness:
  "set [Str ''2.500.001 - 5.000.000'', Str ''0 - 2.500.000'', Str ''2.500.001 - 5.000.000'']
       - {Null} \<subseteq> Str ` set create_salary_order
   \<and> value_counts [Str ''2.500.001 - 5.000.000'', Str ''0 - 2.500.000'', Str ''2.500.001 - 5.000.000'']
     = [(Str ''2.500.001 - 5.000.000'', 2), (Str ''0 - 2.500.000'', 1)]
   \<and> reorder_by_salary
       (value_counts [Str ''2.500.001 - 5.000.000'', Str ''0 - 2.500.000'', Str ''2.500.001 - 5.000.000''])
     = [(Str ''0 - 2.500.000'', Some 1), (Str ''2.500.001 - 5.000.000'', Some 2)]
   \<and> mset [(Str ''0 - 2.500.000'', Some 1), (Str ''2.500.001 - 5.000.000'', Some (2::nat))]
     = mset (map (\<lambda>(l, c). (l, Some c))
         [(Str ''2.500.001 - 5.000.000'', 2), (Str ''0 - 2.500.000'', 1)])
   \<and> BarReindexed ''Distribusi Penghasilan Ayah''
        [(Str ''0 - 2.500.000'', Some 4), (Str ''2.500.001 - 5.000.000'', Some 5)]
       \<in> set (fst (income_analysis sample_registrations))"
proof -
  let ?xs = "[Str ''2.500.001 - 5.000.000'', Str ''0 - 2.500.000'', Str ''2.500.001 - 5.000.000'']"
  let ?fs = "replicate 5 (Str ''2.500.001 - 5.000.000'') @ replicate 4 (Str ''0 - 2.500.000'')
           @ replicate 3 (Str ''Tidak Diketahui'')"
  let ?ms = "replicate 6 (Str ''0 - 2.500.000'') @ replicate 6 (Str ''5.000.001 - 7.500.000'')"
  have h: "set ?xs - {Null} \<subseteq> Str ` set create_salary_order"
    by (simp add: create_salary_order_def)
  have v: "value_counts ?xs = [(Str ''2.500.001 - 5.000.000'', 2), (Str ''0 - 2.500.000'', 1)]"
    by code_simp
  have r: "reorder_by_salary (value_counts ?xs)
      = [(Str ''0 - 2.500.000'', Some 1), (Str ''2.500.001 - 5.000.000'', Some 2)]"
    by code_simp
  have gf: "getcol sample_registrations ''ayah_penghasilan'' = Inr ?fs"
    by (simp add: sample_registrations_def getcol_def)
  have gm: "getcol sample_registrations ''ibu_penghasilan'' = Inr ?ms"
    by (simp add: sample_registrations_def getcol_def)
  have rf: "reorder_by_salary (value_counts ?fs)
      = [(Str ''0 - 2.500.000'', Some 4), (Str ''2.500.001 - 5.000.000'', Some 5)]"
    by code_simp
  note t = salary_reorder_keeps_bracket_counts [of ?xs sample_registrations ?fs ?ms]
  from t h have "mset (reorder_by_salary (value_counts ?xs))
      = mset (map (\<lambda>(l, c). (l, Some c)) (value_counts ?xs))"
    by blast
  then have "mset [(Str ''0 - 2.500.000'', Some 1), (Str ''2.500.001 - 5.000.000'', Some (2::nat))]
     = mset (map (\<lambda>(l, c). (l, Some c)) (value_counts ?xs))"
    unfolding r .
  then have m: "mset [(Str ''0 - 2.500.000'', Some 1), (Str ''2.500.001 - 5.000.000'', Some (2::nat))]
     = mset (map (\<lambda>(l, c). (l, Some c))
         [(Str ''2.500.001 - 5.000.000'', 2), (Str ''0 - 2.500.000'', 1)])"
    unfolding v .
  from t gf gm have "BarReindexed ''Distribusi Penghasilan Ayah'' (reorder_by_salary (value_counts ?fs))
       \<in> set (fst (income_analysis sample_registrations))"
    by blast
  then have b: "BarReindexed ''Distribusi Penghasilan Ayah''
        [(Str ''0 - 2.500.000'', Some 4), (Str ''2.500.001 - 5.000.000'', Some 5)]
       \<in> set (fst (income_analysis sample_registrations))"
    unfolding rf .
  from h v r m b show ?thesis by blast
qed

section \<open>Properties of the top-N charts\<close>

lemma getcol_setcol: "getcol (setcol c v df) c = Inr v"
proof (cases "c \<in> set (map fst df)")
  case True
  have "map_of (map (\<lambda>(name, xs). if name = c then (name, v) else (name, xs)) df) c = Some v"
    using True by (induction df) auto
  with True show ?thesis by (simp add: getcol_def setcol_def)
next
  case False
  then have "map_of df c = None" by (simp add: map_of_eq_None_iff)
  with False show ?thesis by (simp add: getcol_def setcol_def map_add_def)
qed

lemma setcol_new: "c \<notin> fst ` set df \<Longrightarrow> setcol c v df = df @ [(c, v)]"
  by (simp add: setcol_def)

lemma setcol_old:
  "c \<in> fst ` set df \<Longrightarrow>
   setcol c v df = map (\<lambda>(name, xs). if name = c then (name, v) else (name, xs)) df"
  by (simp add: setcol_def)

lemma income_result:
  assumes "getcol df ''ayah_penghasilan'' = Inr fs" "getcol df ''ibu_penghasilan'' = Inr ms"
  shows "snd (income_analysis df)
       = Inr (setcol ''combined_income_category'' (combined_income_column fs ms) df)"
    and "Pie ''Estimasi Penghasilan Keluarga Gabungan''
           (value_counts (combined_income_column fs ms)) \<in> set (fst (income_analysis df))"
  using assms
  by (simp_all add: income_analysis_def render_simps counts_of_def getcol_setcol Let_def)

lemma income_raises:
  assumes "snd (income_analysis df) = Inr df'"
  shows "\<exists>fs ms. getcol df ''ayah_penghasilan'' = Inr fs \<and> getcol df ''ibu_penghasilan'' = Inr ms"
  using assms
  by (auto simp: income_analysis_def render_simps counts_of_def Let_def split: sum.splits)

lemma education_comparison_chart:
  assumes "getcol df ''ayah_pendidikan'' = Inr ae" "getcol df ''ibu_pendidikan'' = Inr ie"
  shows "BarGrouped ''Perbandingan Tingkat Pendidikan Ayah vs Ibu''
           (education_comparison (value_counts ae) (value_counts ie))
         \<in> set (fst (parent_education_analysis df))"
  using assms
  by (simp add: parent_education_analysis_def render_simps counts_of_col Let_def)

lemma report_download:
  assumes "snd (main_report tg df) = Inr u"
  shows "show_income tg \<Longrightarrow> snd (income_analysis df) = Inr df' \<Longrightarrow>
           DataPreview df' \<in> set (fst (main_report tg df))
         \<and> Download ''processed_student_data.csv'' df' \<in> set (fst (main_report tg df))"
    and "\<not> show_income tg \<Longrightarrow>
           DataPreview df \<in> set (fst (main_report tg df))
         \<and> Download ''processed_student_data.csv'' df \<in> set (fst (main_report tg df))"
proof -
  from assms have ok: "\<not> isl (snd (main_report tg df))" by simp
  have i: "snd (bind_r (income_analysis df) (\<lambda>df'. then_r (draw Rule) (eval_r (Inr df'))))
      = Inr df'" if "snd (income_analysis df) = Inr df'"
    using that by (simp add: snd_bind_r snd_then_r)
  show "DataPreview df' \<in> set (fst (main_report tg df))
         \<and> Download ''processed_student_data.csv'' df' \<in> set (fst (main_report tg df))"
    if "show_income tg" "snd (income_analysis df) = Inr df'"
    using ok that i [OF that(2)] unfolding main_report_def
    by (simp add: in_then_r in_bind_r in_when_r ok_then_r ok_bind_r ok_when_r ok_checkboxes)
  show "DataPreview df \<in> set (fst (main_report tg df))
         \<and> Download ''processed_student_data.csv'' df \<in> set (fst (main_report tg df))"
    if "\<not> show_income tg"
    using ok that unfolding main_report_def
    by (simp add: in_then_r in_bind_r in_when_r ok_then_r ok_bind_r ok_when_r ok_checkboxes)
qed




section \<open>Properties of the derived column\<close>

lemma length_combined:
  "length (combined_income_column fs ms) = min (length fs) (length ms)"
  by (simp add: combined_income_column_def)

lemma nth_combined:
  "i < length fs \<Longrightarrow> i < length ms \<Longrightarrow>
   combined_income_column fs ms ! i = Str (get_income_category (fs ! i) (ms ! i))"
  by (simp add: combined_income_column_def)

lemma len_df_append: "df \<noteq> [] \<Longrightarrow> len_df (df @ cols) = len_df df"
  by (cases df) (simp_all add: len_df_def)

lemma getcol_nonempty: "getcol df c = Inr xs \<Longrightarrow> df \<noteq> []"
  by (auto simp: getcol_def)

text \<open>
  Claim C10, as stated, for every input table: it fails on a table that already has a
  column combined_income_category, whose cells are overwritten while no column is added,
  and on a table without an income column, where \<open>income_analysis\<close> raises \<open>KeyError\<close>
  and adds nothing.
\<close>

theorem income_analysis_overwrites_existing_column:
  "snd (income_analysis
      [(''ayah_penghasilan'', [Str ''0 - 2.500.000'']),
       (''ibu_penghasilan'', [Str ''0 - 2.500.000'']),
       (''combined_income_category'', [Str ''> 50 Juta''])])
   = Inr
      [(''ayah_penghasilan'', [Str ''0 - 2.500.000'']),
       (''ibu_penghasilan'', [Str ''0 - 2.500.000'']),
       (''combined_income_category'', [Str le_5_juta])]
   \<and> snd (income_analysis [(''ayah_penghasilan'', [Str ''0 - 2.500.000''])])
     = Inl (KeyError ''ibu_penghasilan'')"
  by code_simp

text \<open>
  Claim C10, amended. On a table that has the columns ayah_penghasilan and ibu_penghasilan
  and no column combined_income_category, \<open>income_analysis\<close> appends exactly one column,
  combined_income_category, after the last column and changes nothing else: the columns
  that were there keep their labels, order and cells, and the number of rows is the same.
  Row by row the new column holds the combined category of the two income cells. The
  expander at the end of the page then previews and exports this table, all original
  columns followed by the derived one, whenever the income checkbox is set and no selected
  section raises; with the checkbox clear the export is the table without the derived
  column. On a table that already has a column combined_income_category that column is
  overwritten in place and none is added, and \<open>income_analysis\<close> returns a table only if
  both income columns exist.
\<close>

theorem income_analysis_appends_one_column:
  "(getcol df ''ayah_penghasilan'' = Inr fs \<and> getcol df ''ibu_penghasilan'' = Inr ms
      \<and> ''combined_income_category'' \<notin> fst ` set df \<longrightarrow>
      snd (income_analysis df)
        = Inr (df @ [(''combined_income_category'', combined_income_column fs ms)])
    \<and> len_df (df @ [(''combined_income_category'', combined_income_column fs ms)]) = len_df df
    \<and> (show_income tg \<and> snd (main_report tg df) = Inr u \<longrightarrow>
         DataPreview (df @ [(''combined_income_category'', combined_income_column fs ms)])
           \<in> set (fst (main_report tg df))
       \<and> Download ''processed_student_data.csv''
           (df @ [(''combined_income_category'', combined_income_column fs ms)])
           \<in> set (fst (main_report tg df))))
   \<and> (getcol df ''ayah_penghasilan'' = Inr fs \<and> getcol df ''ibu_penghasilan'' = Inr ms
      \<and> ''combined_income_category'' \<in> fst ` set df \<longrightarrow>
      snd (income_analysis df)
        = Inr (map (\<lambda>(name, xs). if name = ''combined_income_category''
                      then (name, combined_income_column fs ms) else (name, xs)) df))
   \<and> (\<not> show_income tg \<and> snd (main_report tg df) = Inr u \<longrightarrow>
         DataPreview df \<in> set (fst (main_report tg df))
       \<and> Download ''processed_student_data.csv'' df \<in> set (fst (main_report tg df)))
   \<and> (snd (income_analysis df) = Inr df' \<longrightarrow>
        (\<exists>fs ms. getcol df ''ayah_penghasilan'' = Inr fs
                \<and> getcol df ''ibu_penghasilan'' = Inr ms))
   \<and> length (combined_income_column fs ms) = min (length fs) (length ms)
   \<and> (i < length fs \<and> i < length ms \<longrightarrow>
        combined_income_column fs ms ! i = Str (get_income_category (fs ! i) (ms ! i)))"
proof -
  let ?c = "''combined_income_category''"
  let ?v = "combined_income_column fs ms"
  have a: "snd (income_analysis df) = Inr (df @ [(?c, ?v)])
    \<and> len_df (df @ [(?c, ?v)]) = len_df df
    \<and> (show_income tg \<and> snd (main_report tg df) = Inr u \<longrightarrow>
         DataPreview (df @ [(?c, ?v)]) \<in> set (fst (main_report tg df))
       \<and> Download ''processed_student_data.csv'' (df @ [(?c, ?v)])
           \<in> set (fst (main_report tg df)))"
    if h: "getcol df ''ayah_penghasilan'' = Inr fs \<and> getcol df ''ibu_penghasilan'' = Inr ms
      \<and> ?c \<notin> fst ` set df"
  proof -
    from h have r: "snd (income_analysis df) = Inr (df @ [(?c, ?v)])"
      using income_result(1) [of df fs ms] setcol_new [of ?c df ?v] by simp
    from h have l: "len_df (df @ [(?c, ?v)]) = len_df df"
      using getcol_nonempty [of df "''ayah_penghasilan''" fs] by (simp add: len_df_append)
    from r l report_download(1) [of tg df u "df @ [(?c, ?v)]"] show ?thesis by blast
  qed
  have b: "snd (income_analysis df)
        = Inr (map (\<lambda>(name, xs). if name = ?c then (name, ?v) else (name, xs)) df)"
    if h: "getcol df ''ayah_penghasilan'' = Inr fs \<and> getcol df ''ibu_penghasilan'' = Inr ms
      \<and> ?c \<in> fst ` set df"
    using h income_result(1) [of df fs ms] setcol_old [of ?c df ?v] by simp
  have c: "\<not> show_income tg \<and> snd (main_report tg df) = Inr u \<longrightarrow>
         DataPreview df \<in> set (fst (main_report tg df))
       \<and> Download ''processed_student_data.csv'' df \<in> set (fst (main_report tg df))"
    using report_download(2) [of tg df u] by blast
  have d: "snd (income_analysis df) = Inr df' \<longrightarrow>
        (\<exists>fs ms. getcol df ''ayah_penghasilan'' = Inr fs
                \<and> getcol df ''ibu_penghasilan'' = Inr ms)"
    using income_raises [of df df'] by blast
  have e: "i < length fs \<and> i < length ms \<longrightarrow>
        combined_income_column fs ms ! i = Str (get_income_category (fs ! i) (ms ! i))"
    using nth_combined [of i fs ms] by blast
  from a b c d e length_combined [of fs ms] show ?thesis by blast
qed

theorem income_analysis_appends_one_column_witness:
  "snd (income_analysis
      [(''nama_calon_murid'', [Str ''A'', Str ''B'']),
       (''ayah_penghasilan'', [Str ''7.500.001 - 10.000.000'', Str ''Tidak Diketahui'']),
       (''ibu_penghasilan'', [Str ''2.500.001 - 5.000.000'', Str ''0 - 2.500.000''])])
   = Inr
      [(''nama_calon_murid'', [Str ''A'', Str ''B'']),
       (''ayah_penghasilan'', [Str ''7.500.001 - 10.000.000'', Str ''Tidak Diketahui'']),
       (''ibu_penghasilan'', [Str ''2.500.001 - 5.000.000'', Str ''0 - 2.500.000'']),
       (''combined_income_category'', [Str ''10-20 Juta'', Str le_5_juta])]
   \<and> Download ''processed_student_data.csv''
      [(''nama_calon_murid'', [Str ''A'', Str ''B'']),
       (''ayah_penghasilan'', [Str ''7.500.001 - 10.000.000'', Str ''Tidak Diketahui'']),
       (''ibu_penghasilan'', [Str ''2.500.001 - 5.000.000'', Str ''0 - 2.500.000'']),
       (''combined_income_category'', [Str ''10-20 Juta'', Str le_5_juta])]
     \<in> set (fst (main_report
         \<lparr>show_summary = False, show_demographic = False, show_geographic = False,
          show_preferences = False, show_parent_education = False,
          show_parent_occupation = False, show_income = True, show_school_origin = False\<rparr>
         [(''nama_calon_murid'', [Str ''A'', Str ''B'']),
          (''ayah_penghasilan'', [Str ''7.500.001 - 10.000.000'', Str ''Tidak Diketahui'']),
          (''ibu_penghasilan'', [Str ''2.500.001 - 5.000.000'', Str ''0 - 2.500.000''])]))"
proof -
  let ?df = "[(''nama_calon_murid'', [Str ''A'', Str ''B'']),
       (''ayah_penghasilan'', [Str ''7.500.001 - 10.000.000'', Str ''Tidak Diketahui'']),
       (''ibu_penghasilan'', [Str ''2.500.001 - 5.000.000'', Str ''0 - 2.500.000''])]"
  let ?fs = "[Str ''7.500.001 - 10.000.000'', Str ''Tidak Diketahui'']"
  let ?ms = "[Str ''2.500.001 - 5.000.000'', Str ''0 - 2.500.000'']"
  let ?tg = "\<lparr>show_summary = False, show_demographic = False, show_geographic = False,
          show_preferences = False, show_parent_education = False,
          show_parent_occupation = False, show_income = True, show_school_origin = False\<rparr>"
  have g: "getcol ?df ''ayah_penghasilan'' = Inr ?fs" "getcol ?df ''ibu_penghasilan'' = Inr ?ms"
    by (simp_all add: getcol_def)
  have n: "''combined_income_category'' \<notin> fst ` set ?df" by simp
  have v: "combined_income_column ?fs ?ms = [Str ''10-20 Juta'', Str le_5_juta]"
    by (simp add: combined_income_column_def get_income_category_def get_max_income_def
        category_of_total_def)
  have s: "show_income ?tg" by simp
  have ok: "snd (main_report ?tg ?df) = Inr ()"
    by code_simp
  note t = income_analysis_appends_one_column [where df = ?df and fs = ?fs and ms = ?ms
      and tg = ?tg and u = "()"]
  from t g n s ok have
    "snd (income_analysis ?df)
       = Inr (?df @ [(''combined_income_category'', combined_income_column ?fs ?ms)])"
    "Download ''processed_student_data.csv''
       (?df @ [(''combined_income_category'', combined_income_column ?fs ?ms)])
       \<in> set (fst (main_report ?tg ?df))"
    by blast+
  then show ?thesis unfolding v by simp
qed

section \<open>Properties of loading\<close>

lemma main_try_loaded:
  assumes "read_csv \<lparr>delimiter = CHR '';'', quotechar = CHR 0x22, on_bad_lines = Skip,
                      encoding = ''utf-8''\<rparr> file = Inr df0"
  shows "clean_data df0 = Inr df \<Longrightarrow> main_try read_csv file tg = main_report tg df"
    and "clean_data df0 = Inl e \<Longrightarrow> main_try read_csv file tg = ([], Inl e)"
proof -
  have l: "load_data read_csv file = ([], Inr (Some df0))"
    using assms by (simp add: load_data_def eval_r_def)
  show "main_try read_csv file tg = main_report tg df" if "clean_data df0 = Inr df"
    using that by (cases "main_report tg df") (simp add: main_try_def l bind_r_def eval_r_def)
  show "main_try read_csv file tg = ([], Inl e)" if "clean_data df0 = Inl e"
    using that by (simp add: main_try_def l bind_r_def eval_r_def)
qed

text \<open>
  Claim C5. \<open>load_data\<close> hands the uploaded file to the CSV reader with the semicolon
  as delimiter, the double quote as quote character, malformed lines skipped and UTF-8 as
  encoding, and with nothing else: only what the reader does under these options matters.
  When the reader returns a table, \<open>load_data\<close> returns it and shows nothing. When the
  reader raises, \<open>load_data\<close> shows the error message and returns \<open>None\<close>, and the
  page then ends after the message: no checkbox, no section and no second error message.
  In either case \<open>load_data\<close> returns; it never raises.
\<close>

theorem load_data_never_raises:
  "(read_csv \<lparr>delimiter = CHR '';'', quotechar = CHR 0x22, on_bad_lines = Skip,
               encoding = ''utf-8''\<rparr> file = Inr df \<longrightarrow>
      load_data read_csv file = ([], Inr (Some df)))
   \<and> (read_csv \<lparr>delimiter = CHR '';'', quotechar = CHR 0x22, on_bad_lines = Skip,
               encoding = ''utf-8''\<rparr> file = Inl e \<longrightarrow>
      load_data read_csv file = ([LoadError e], Inr None)
    \<and> main read_csv (Some file) tg = [Title, Rule, SidebarHeader, FileUploader, LoadError e])
   \<and> \<not> isl (snd (load_data read_csv file))
   \<and> (read_csv' \<lparr>delimiter = CHR '';'', quotechar = CHR 0x22, on_bad_lines = Skip,
               encoding = ''utf-8''\<rparr> file
       = read_csv \<lparr>delimiter = CHR '';'', quotechar = CHR 0x22, on_bad_lines = Skip,
               encoding = ''utf-8''\<rparr> file \<longrightarrow>
      load_data read_csv' file = load_data read_csv file)"
proof -
  let ?o = "\<lparr>delimiter = CHR '';'', quotechar = CHR 0x22, on_bad_lines = Skip,
               encoding = ''utf-8''\<rparr>"
  have a: "load_data read_csv file = ([], Inr (Some df))" if "read_csv ?o file = Inr df"
    using that by (simp add: load_data_def eval_r_def)
  have b: "load_data read_csv file = ([LoadError e], Inr None)" if "read_csv ?o file = Inl e"
    using that by (simp add: load_data_def eval_r_def then_r_def bind_r_def draw_def)
  have c: "main read_csv (Some file) tg = [Title, Rule, SidebarHeader, FileUploader, LoadError e]"
    if "read_csv ?o file = Inl e"
    using that
    by (simp add: main_def main_try_def load_data_def eval_r_def then_r_def bind_r_def draw_def)
  have d: "load_data read_csv' file = load_data read_csv file"
    if "read_csv' ?o file = read_csv ?o file"
    using that by (simp add: load_data_def)
  have e: "\<not> isl (snd (load_data read_csv file))"
    by (cases "read_csv ?o file")
      (simp_all add: load_data_def eval_r_def then_r_def bind_r_def draw_def)
  from a b c d e show ?thesis by blast
qed

theorem load_data_never_raises_witness:
  "load_data
     (\<lambda>opts file. if delimiter opts = CHR '';'' \<and> quotechar opts = CHR 0x22
          \<and> on_bad_lines opts = Skip \<and> encoding opts = ''utf-8''
        then Inl (ReadError ''No columns to parse from file'') else Inr []) ()
   = ([LoadError (ReadError ''No columns to parse from file'')], Inr None)
   \<and> main
     (\<lambda>opts file. if delimiter opts = CHR '';'' \<and> quotechar opts = CHR 0x22
          \<and> on_bad_lines opts = Skip \<and> encoding opts = ''utf-8''
        then Inl (ReadError ''No columns to parse from file'') else Inr []) (Some ())
     default_toggles
   = [Title, Rule, SidebarHeader, FileUploader,
      LoadError (ReadError ''No columns to parse from file'')]
   \<and> load_data
     (\<lambda>opts file. if delimiter opts = CHR '';'' \<and> quotechar opts = CHR 0x22
          \<and> on_bad_lines opts = Skip \<and> encoding opts = ''utf-8''
        then Inr [(''kategori'', [Str ''SMP''])] else Inl (ReadError ''wrong options'')) ()
   = ([], Inr (Some [(''kategori'', [Str ''SMP''])]))"
proof -
  let ?bad = "\<lambda>(opts :: csv_options) (file :: unit).
        if delimiter opts = CHR '';'' \<and> quotechar opts = CHR 0x22
          \<and> on_bad_lines opts = Skip \<and> encoding opts = ''utf-8''
        then Inl (ReadError ''No columns to parse from file'') else (Inr [] :: exn + table)"
  let ?good = "\<lambda>(opts :: csv_options) (file :: unit).
        if delimiter opts = CHR '';'' \<and> quotechar opts = CHR 0x22
          \<and> on_bad_lines opts = Skip \<and> encoding opts = ''utf-8''
        then Inr [(''kategori'', [Str ''SMP''])]
        else (Inl (ReadError ''wrong options'') :: exn + table)"
  have b: "?bad \<lparr>delimiter = CHR '';'', quotechar = CHR 0x22, on_bad_lines = Skip,
               encoding = ''utf-8''\<rparr> () = Inl (ReadError ''No columns to parse from file'')"
    by simp
  have g: "?good \<lparr>delimiter = CHR '';'', quotechar = CHR 0x22, on_bad_lines = Skip,
               encoding = ''utf-8''\<rparr> () = Inr [(''kategori'', [Str ''SMP''])]"
    by simp
  from load_data_never_raises [of ?bad "()" _ "ReadError ''No columns to parse from file''"
      default_toggles] b
  have 1: "load_data ?bad () = ([LoadError (ReadError ''No columns to parse from file'')], Inr None)"
    and 2: "main ?bad (Some ()) default_toggles
       = [Title, Rule, SidebarHeader, FileUploader,
          LoadError (ReadError ''No columns to parse from file'')]"
    by blast+
  from load_data_never_raises [of ?good "()" "[(''kategori'', [Str ''SMP''])]"] g
  have 3: "load_data ?good () = ([], Inr (Some [(''kategori'', [Str ''SMP''])]))"
    by blast
  from 1 2 3 show ?thesis by (intro conjI)
qed

section \<open>Properties of the checkboxes\<close>

lemma checkboxes_output:
  "fst checkboxes =
     [Checkbox ''Statistik Ringkasan'' True, Checkbox ''Analisis Demografis'' True,
      Checkbox ''Analisis Geografis'' True, Checkbox ''Analisis Preferensi Sekolah'' True,
      Checkbox ''Pendidikan Orang Tua'' True, Checkbox ''Pekerjaan Orang Tua'' True,
      Checkbox ''Analisis Penghasilan'' True, Checkbox ''Asal Sekolah'' True]"
  by (simp add: checkboxes_def fst_then_r snd_then_r)

lemma checkboxes_in_report: "set (fst checkboxes) \<subseteq> set (fst (main_report tg df))"
  unfolding main_report_def by (auto simp: in_then_r)

lemma report_has_download:
  assumes "snd (main_report tg df) = Inr u"
  shows "\<exists>d. DataPreview d \<in> set (fst (main_report tg df))
           \<and> Download ''processed_student_data.csv'' d \<in> set (fst (main_report tg df))"
proof (cases "show_income tg")
  case False
  with report_download(2) [OF assms] show ?thesis by blast
next
  case True
  from assms have "\<not> isl (snd (main_report tg df))" by simp
  with True have "\<not> isl (snd (income_analysis df))"
    unfolding main_report_def
    by (simp add: ok_then_r ok_bind_r ok_when_r)
  then obtain df' where "snd (income_analysis df) = Inr df'"
    by (cases "snd (income_analysis df)") simp_all
  with report_download(1) [OF assms True] show ?thesis by blast
qed

lemma main_try_headers:
  "Header s \<in> set (fst (main_try read_csv file tg)) \<Longrightarrow> shown tg s"
proof -
  let ?o = "\<lparr>delimiter = CHR '';'', quotechar = CHR 0x22, on_bad_lines = Skip,
               encoding = ''utf-8''\<rparr>"
  assume h: "Header s \<in> set (fst (main_try read_csv file tg))"
  show ?thesis
  proof (cases "read_csv ?o file")
    case (Inl e)
    then have "main_try read_csv file tg = ([LoadError e], Inr ())"
      by (simp add: main_try_def load_data_def eval_r_def then_r_def bind_r_def draw_def)
    with h show ?thesis by simp
  next
    case (Inr df0)
    show ?thesis
    proof (cases "clean_data df0")
      case (Inl e)
      with main_try_loaded(2) [of read_csv "file" df0 e tg] Inr h show ?thesis by simp
    next
      case c: (Inr df)
      with main_try_loaded(1) [of read_csv "file" df0 df tg] Inr h
      have "Header s \<in> set (fst (main_report tg df))" by simp
      then show ?thesis by (rule report_headers_sound)
    qed
  qed
qed

lemma main_headers: "Header s \<in> set (main read_csv uploaded_file tg) \<Longrightarrow> shown tg s"
proof (cases uploaded_file)
  case None
  assume "Header s \<in> set (main read_csv uploaded_file tg)"
  with None show ?thesis by (simp add: main_def)
next
  case (Some f)
  assume h: "Header s \<in> set (main read_csv uploaded_file tg)"
  obtain out r where m: "main_try read_csv f tg = (out, r)"
    by (cases "main_try read_csv f tg")
  with h Some have "Header s \<in> set out"
    by (cases r) (auto simp: main_def)
  with m have "Header s \<in> set (fst (main_try read_csv f tg))" by simp
  then show ?thesis by (rule main_try_headers)
qed

lemma main_completed:
  assumes "read_csv \<lparr>delimiter = CHR '';'', quotechar = CHR 0x22, on_bad_lines = Skip,
                      encoding = ''utf-8''\<rparr> file = Inr df0"
    and "snd (main_try read_csv file tg) = Inr u"
  shows "\<exists>df. clean_data df0 = Inr df \<and> snd (main_report tg df) = Inr u
           \<and> main read_csv (Some file) tg
             = [Title, Rule, SidebarHeader, FileUploader] @ fst (main_report tg df)"
proof (cases "clean_data df0")
  case (Inl e)
  with main_try_loaded(2) [of read_csv "file" df0 e tg] assms show ?thesis by simp
next
  case (Inr df)
  with main_try_loaded(1) [of read_csv "file" df0 df tg] assms(1)
  have t: "main_try read_csv file tg = main_report tg df" by simp
  with assms(2) have s: "snd (main_report tg df) = Inr u" by simp
  have "main read_csv (Some file) tg
      = [Title, Rule, SidebarHeader, FileUploader] @ fst (main_report tg df)"
    using s by (cases "main_report tg df") (simp add: main_def t)
  with Inr s show ?thesis by blast
qed

lemma sections_without_download:
  "Download n d \<notin> set (fst (summary_statistics df))"
  "Download n d \<notin> set (fst (demographic_analysis df))"
  "Download n d \<notin> set (fst (geographical_analysis df))"
  "Download n d \<notin> set (fst (school_preference_analysis df))"
  "Download n d \<notin> set (fst (parent_education_analysis df))"
  "Download n d \<notin> set (fst (parent_occupation_analysis df))"
  "Download n d \<notin> set (fst (income_analysis df))"
  "Download n d \<notin> set (fst (school_origin_analysis df))"
  "Download n d \<notin> set (fst checkboxes)"
  by (auto simp: summary_statistics_def demographic_analysis_def geographical_analysis_def
      school_preference_analysis_def parent_education_analysis_def
      parent_occupation_analysis_def income_analysis_def school_origin_analysis_def
      checkboxes_def render_simps Let_def split: sum.splits)

lemma download_at_end:
  assumes "Download n d \<in> set (fst (main_report tg df))"
  shows "\<not> isl (snd (main_report tg df))"
  using assms unfolding main_report_def
  by (auto simp: in_then_r in_bind_r in_when_r ok_then_r ok_bind_r ok_when_r ok_checkboxes
      sections_without_download split: if_splits)

lemma main_aborted:
  assumes "snd (main_try read_csv file tg) = Inl e"
  shows "ProcessError e \<in> set (main read_csv (Some file) tg)"
    and "Download n d \<notin> set (main read_csv (Some file) tg)"
proof -
  let ?o = "\<lparr>delimiter = CHR '';'', quotechar = CHR 0x22, on_bad_lines = Skip,
               encoding = ''utf-8''\<rparr>"
  obtain out where m: "main_try read_csv file tg = (out, Inl e)"
    using assms by (cases "main_try read_csv file tg") simp
  then show "ProcessError e \<in> set (main read_csv (Some file) tg)"
    by (simp add: main_def)
  have "Download n d \<notin> set out"
  proof (cases "read_csv ?o file")
    case (Inl e')
    then have "main_try read_csv file tg = ([LoadError e'], Inr ())"
      by (simp add: main_try_def load_data_def eval_r_def then_r_def bind_r_def draw_def)
    with m show ?thesis by simp
  next
    case (Inr df0)
    show ?thesis
    proof (cases "clean_data df0")
      case (Inl e')
      with main_try_loaded(2) [of read_csv "file" df0 e' tg] Inr m show ?thesis by simp
    next
      case c: (Inr df)
      with main_try_loaded(1) [of read_csv "file" df0 df tg] Inr m
      have r: "main_report tg df = (out, Inl e)" by simp
      then have "isl (snd (main_report tg df))" by simp
      with download_at_end [of n d tg df] have "Download n d \<notin> set (fst (main_report tg df))"
        by blast
      with r show ?thesis by simp
    qed
  qed
  with m show "Download n d \<notin> set (main read_csv (Some file) tg)"
    by (simp add: main_def)
qed




end
